theory Spec2Isabelle
  imports Main "HOL-Library.Char_ord" "HOL-Library.List_Lexorder" "HOL-Library.Multiset"
begin

section \<open>JavaScript values and the platform\<close>

text \<open>
  The dashboard (StudentDashboard, \<^verbatim>\<open>part_000\<close>) and the materials viewer
  (MaterialsViewer, \<^verbatim>\<open>part_001\<close>) read loosely typed documents and probe their fields
  by type. The values they can meet are modelled by \<open>jsval\<close>.

  A number is an integer-valued double or NaN (\<open>None\<close>): every number the two components
  compute with is an epoch value, and integer arithmetic on doubles is exact below
  \<open>2^53\<close>. A \<open>DateObj\<close> is a native Date carrying its time value in milliseconds
  (NaN for an Invalid Date). \<open>Fn r\<close> is a callable property taking no argument: calling
  it throws (\<open>None\<close>) or returns a value. \<open>Obj\<close> is a plain object, its properties in an
  association list; the only callable property the sources ever call is \<open>toDate\<close>.
\<close>

type_synonym number = "int option"

datatype js_error = TypeError | RangeError | Thrown

datatype jsval =
    Undefined
  | Null
  | Bool bool
  | Num number
  | Str string
  | DateObj number
  | Arr "jsval list"
  | Fn "jsval option"
  | Obj "(string \<times> jsval) list"

text \<open>Truthiness, as \<^verbatim>\<open>!v\<close>, \<^verbatim>\<open>v && ...\<close>, \<^verbatim>\<open>v || w\<close> and \<^verbatim>\<open>v ? a : b\<close> read it.\<close>

fun truthy :: "jsval \<Rightarrow> bool" where
  "truthy Undefined = False"
| "truthy Null = False"
| "truthy (Bool b) = b"
| "truthy (Num n) = (n \<noteq> None \<and> n \<noteq> Some 0)"
| "truthy (Str s) = (s \<noteq> [])"
| "truthy (DateObj t) = True"
| "truthy (Arr xs) = True"
| "truthy (Fn r) = True"
| "truthy (Obj fs) = True"

definition js_or :: "jsval \<Rightarrow> jsval \<Rightarrow> jsval" where
  "js_or a b = (if truthy a then a else b)"

text \<open>
  \<^verbatim>\<open>v.k\<close> on a value that is not undefined or null (the sources read a property only
  behind a truthiness test): a plain object answers from its properties, every other
  value has none of the properties the sources ask for.
\<close>

fun getProp :: "jsval \<Rightarrow> string \<Rightarrow> jsval" where
  "getProp (Obj fs) k = (case map_of fs k of Some v \<Rightarrow> v | None \<Rightarrow> Undefined)"
| "getProp v k = Undefined"

text \<open>\<^verbatim>\<open>"k" in v && typeof v.k === "function"\<close>, and \<^verbatim>\<open>v.k && typeof v.k === "function"\<close>.\<close>

definition isFunction :: "jsval \<Rightarrow> bool" where
  "isFunction v = (case v of Fn r \<Rightarrow> True | _ \<Rightarrow> False)"

text \<open>\<^verbatim>\<open>v && typeof v === "object"\<close>: null is an object by \<^verbatim>\<open>typeof\<close> but falsy.\<close>

definition isObject :: "jsval \<Rightarrow> bool" where
  "isObject v = (case v of DateObj t \<Rightarrow> True | Arr xs \<Rightarrow> True | Obj fs \<Rightarrow> True | _ \<Rightarrow> False)"

text \<open>\<^verbatim>\<open>v instanceof Date\<close>.\<close>

definition isDate :: "jsval \<Rightarrow> bool" where
  "isDate v = (case v of DateObj t \<Rightarrow> True | _ \<Rightarrow> False)"

text \<open>Calling a value: a function runs, anything else is not callable.\<close>

definition call :: "jsval \<Rightarrow> js_error + jsval" where
  "call f = (case f of Fn None \<Rightarrow> Inl Thrown | Fn (Some v) \<Rightarrow> Inr v | _ \<Rightarrow> Inl TypeError)"

text \<open>
  What the engine and the host decide and the sources do not: the date formats beyond the
  ISO date-only form, the clock, the local time zone, the build mode, the coercion of
  a value that is not a number to a number, the time value \<^verbatim>\<open>new Date(v)\<close> gives
  for a \<open>v\<close> that is no Date, string or number, and the locale's collation of strings.
\<close>

record platform =
  otherDateFormats :: "string \<Rightarrow> number"
  currentTime :: int
  startOfLocalDay :: "int \<Rightarrow> int"
  weekdayLong :: "int \<Rightarrow> string"
  NODE_ENV :: string
  toNumberOther :: "jsval \<Rightarrow> number"
  timeValueOther :: "jsval \<Rightarrow> number"
  collation :: "string \<Rightarrow> string \<Rightarrow> int"

section \<open>Strings\<close>

text \<open>\<^verbatim>\<open>s.split(c)\<close> for a one-character separator; the result is never empty.\<close>

fun split :: "char \<Rightarrow> string \<Rightarrow> string list" where
  "split c [] = [[]]"
| "split c (x # xs) =
     (if x = c then [] # split c xs
      else (case split c xs of [] \<Rightarrow> [[x]] | p # ps \<Rightarrow> (x # p) # ps))"

definition digitChar :: "nat \<Rightarrow> char" where
  "digitChar n = ''0123456789'' ! (n mod 10)"

fun pad :: "nat \<Rightarrow> nat \<Rightarrow> string" where
  "pad 0 n = []"
| "pad (Suc w) n = pad w (n div 10) @ [digitChar n]"

definition digitVal :: "char \<Rightarrow> nat option" where
  "digitVal c = (if CHR ''0'' \<le> c \<and> c \<le> CHR ''9'' then Some (of_char c - 48) else None)"

text \<open>A clock time as the data model writes it: two digits, a colon, two digits.\<close>

definition isClockTime :: "string \<Rightarrow> bool" where
  "isClockTime s =
     (case s of
        [h1, h2, c, m1, m2] \<Rightarrow>
          digitVal h1 \<noteq> None \<and> digitVal h2 \<noteq> None \<and> c = CHR '':''
          \<and> digitVal m1 \<noteq> None \<and> digitVal m2 \<noteq> None
      | _ \<Rightarrow> False)"

text \<open>
  \<^verbatim>\<open>a.localeCompare(b)\<close> collates by the engine's locale. Two clock times differ, if
  at all, in a digit at the same place, and digits collate in their numeric order, which
  is the order of their code units; on any other pair of strings the answer is the
  engine's.
\<close>

definition localeCompare :: "platform \<Rightarrow> string \<Rightarrow> string \<Rightarrow> int" where
  "localeCompare env a b =
     (if isClockTime a \<and> isClockTime b
      then (if a < b then - 1 else if a = b then 0 else 1)
      else collation env a b)"

fun parseDigits :: "string \<Rightarrow> nat option" where
  "parseDigits [] = Some 0"
| "parseDigits (c # cs) =
     (case digitVal c of
        None \<Rightarrow> None
      | Some d \<Rightarrow> (case parseDigits cs of
                    None \<Rightarrow> None
                  | Some r \<Rightarrow> Some (d * 10 ^ length cs + r)))"

section \<open>Dates\<close>

text \<open>Days since the epoch of a proleptic Gregorian date, and back.\<close>

definition daysFromCivil :: "int \<Rightarrow> int \<Rightarrow> int \<Rightarrow> int" where
  "daysFromCivil y m d =
     (let y' = (if m \<le> 2 then y - 1 else y);
          era = y' div 400;
          yoe = y' - era * 400;
          doy = (153 * (if m > 2 then m - 3 else m + 9) + 2) div 5 + d - 1;
          doe = yoe * 365 + yoe div 4 - yoe div 100 + doy
      in era * 146097 + doe - 719468)"

definition civilFromDays :: "int \<Rightarrow> int \<times> int \<times> int" where
  "civilFromDays z =
     (let z' = z + 719468;
          era = z' div 146097;
          doe = z' - era * 146097;
          yoe = (doe - doe div 1460 + doe div 36524 - doe div 146096) div 365;
          doy = doe - (365 * yoe + yoe div 4 - yoe div 100);
          mp = (5 * doy + 2) div 153;
          d = doy - (153 * mp + 2) div 5 + 1;
          m = (if mp < 10 then mp + 3 else mp - 9);
          y = yoe + era * 400
      in (if m \<le> 2 then y + 1 else y, m, d))"

definition isLeapYear :: "int \<Rightarrow> bool" where
  "isLeapYear y = (y mod 4 = 0 \<and> (y mod 100 \<noteq> 0 \<or> y mod 400 = 0))"

definition daysInMonth :: "int \<Rightarrow> int \<Rightarrow> int" where
  "daysInMonth y m =
     (if m = 2 then (if isLeapYear y then 29 else 28)
      else if m = 4 \<or> m = 6 \<or> m = 9 \<or> m = 11 then 30 else 31)"

definition msPerDay :: int where
  "msPerDay = 86400000"

text \<open>
  The ISO date-only form \<^verbatim>\<open>YYYY-MM-DD\<close> of a real calendar day, which every engine
  reads as midnight UTC of that day.
\<close>

definition isoDateOnly :: "string \<Rightarrow> number" where
  "isoDateOnly s =
     (case split CHR ''-'' s of
        [ys, ms, ds] \<Rightarrow>
          (if length ys = 4 \<and> length ms = 2 \<and> length ds = 2 then
             (case (parseDigits ys, parseDigits ms, parseDigits ds) of
                (Some y, Some m, Some d) \<Rightarrow>
                  (if 1 \<le> m \<and> m \<le> 12 \<and> 1 \<le> d \<and> int d \<le> daysInMonth (int y) (int m)
                   then Some (daysFromCivil (int y) (int m) (int d) * msPerDay)
                   else None)
              | _ \<Rightarrow> None)
           else None)
      | _ \<Rightarrow> None)"

text \<open>
  \<^verbatim>\<open>Date.parse\<close>: the date-only form is fixed by the language, the empty string is no
  date on any engine, and every other string is the engine's business.
\<close>

definition Date_parse :: "platform \<Rightarrow> string \<Rightarrow> number" where
  "Date_parse env s =
     (case isoDateOnly s of
        Some t \<Rightarrow> Some t
      | None \<Rightarrow> (if s = [] then None else otherDateFormats env s))"

text \<open>\<^verbatim>\<open>TimeClip\<close>: a time value is at most 8.64e15 ms from the epoch.\<close>

definition timeClip :: "number \<Rightarrow> number" where
  "timeClip n = (case n of None \<Rightarrow> None
                 | Some t \<Rightarrow> (if abs t \<le> 8640000000000000 then Some t else None))"

definition toNumber :: "platform \<Rightarrow> jsval \<Rightarrow> number" where
  "toNumber env v = (case v of Num n \<Rightarrow> n | _ \<Rightarrow> toNumberOther env v)"

text \<open>\<^verbatim>\<open>n * 1000\<close> on numbers: NaN stays NaN.\<close>

definition times1000 :: "number \<Rightarrow> number" where
  "times1000 n = map_option (\<lambda>x. x * 1000) n"

text \<open>\<^verbatim>\<open>new Date(v)\<close>: a Date is copied, a string is parsed, a number is clipped.\<close>

definition newDate :: "platform \<Rightarrow> jsval \<Rightarrow> jsval" where
  "newDate env v =
     (case v of
        DateObj t \<Rightarrow> DateObj t
      | Str s \<Rightarrow> DateObj (Date_parse env s)
      | Num n \<Rightarrow> DateObj (timeClip n)
      | _ \<Rightarrow> DateObj (timeValueOther env v))"

text \<open>\<^verbatim>\<open>new Date()\<close>: the clock.\<close>

definition newDateNow :: "platform \<Rightarrow> jsval" where
  "newDateNow env = DateObj (Some (currentTime env))"

text \<open>
  The text \<^verbatim>\<open>toISOString\<close> gives for a valid time value:
  \<^verbatim>\<open>YYYY-MM-DDTHH:mm:ss.sssZ\<close> in UTC, the year with a sign and six digits outside
  0..9999.
\<close>

definition isoYear :: "int \<Rightarrow> string" where
  "isoYear y =
     (if 0 \<le> y \<and> y \<le> 9999 then pad 4 (nat y)
      else (if y < 0 then ''-'' else ''+'') @ pad 6 (nat (abs y)))"

definition isoString :: "int \<Rightarrow> string" where
  "isoString t =
     (let (y, m, d) = civilFromDays (t div msPerDay);
          r = t mod msPerDay
      in isoYear y @ ''-'' @ pad 2 (nat m) @ ''-'' @ pad 2 (nat d) @ ''T''
         @ pad 2 (nat (r div 3600000)) @ '':'' @ pad 2 (nat (r div 60000 mod 60)) @ '':''
         @ pad 2 (nat (r div 1000 mod 60)) @ ''.'' @ pad 3 (nat (r mod 1000)) @ ''Z'')"

text \<open>
  \<^verbatim>\<open>v.toISOString()\<close>: a RangeError on an Invalid Date, a TypeError on a value that is
  no Date.
\<close>

definition toISOString :: "jsval \<Rightarrow> js_error + string" where
  "toISOString v =
     (case v of
        DateObj (Some t) \<Rightarrow> Inr (isoString t)
      | DateObj None \<Rightarrow> Inl RangeError
      | _ \<Rightarrow> Inl TypeError)"

text \<open>\<^verbatim>\<open>v.getTime()\<close>: the time value of a Date, a TypeError on any other value.\<close>

definition getTime :: "jsval \<Rightarrow> js_error + number" where
  "getTime v = (case v of DateObj t \<Rightarrow> Inr t | _ \<Rightarrow> Inl TypeError)"

text \<open>\<^verbatim>\<open>d.toISOString().split("T")[0]\<close>, for a valid time value and for any value.\<close>

definition isoDateOf :: "int \<Rightarrow> string" where
  "isoDateOf t = hd (split CHR ''T'' (isoString t))"

definition isoDatePart :: "jsval \<Rightarrow> js_error + string" where
  "isoDatePart v =
     (case toISOString v of Inl e \<Rightarrow> Inl e | Inr s \<Rightarrow> Inr (hd (split CHR ''T'' s)))"

section \<open>Running code that can throw\<close>

text \<open>
  A computation returns a value (\<open>Inr\<close>) or throws (\<open>Inl\<close>); \<open>bindE\<close> runs the next
  step on the value and passes a throw on, \<open>mapE\<close> is \<^verbatim>\<open>xs.map(f)\<close> for a callback
  that can throw: the first throw ends the loop.
\<close>

definition bindE :: "'e + 'a \<Rightarrow> ('a \<Rightarrow> 'e + 'b) \<Rightarrow> 'e + 'b" where
  "bindE r f = (case r of Inl e \<Rightarrow> Inl e | Inr v \<Rightarrow> f v)"

fun mapE :: "('a \<Rightarrow> 'e + 'b) \<Rightarrow> 'a list \<Rightarrow> 'e + 'b list" where
  "mapE f [] = Inr []"
| "mapE f (x # xs) = bindE (f x) (\<lambda>y. bindE (mapE f xs) (\<lambda>ys. Inr (y # ys)))"

section \<open>The date normalizer (\<^verbatim>\<open>parseDateToISO\<close>, part_000)\<close>

text \<open>
  The body of the \<^verbatim>\<open>try\<close> block. A string whose date portion has three
  hyphen-separated parts is returned as that portion, unread; any other string goes
  through \<^verbatim>\<open>new Date\<close>. A Date and the result of a callable \<^verbatim>\<open>toDate\<close> are
  printed with \<^verbatim>\<open>toISOString\<close>. Everything else falls through to \<^verbatim>\<open>return null\<close>.
\<close>

definition parseDateToISO_try :: "platform \<Rightarrow> jsval \<Rightarrow> js_error + string option" where
  "parseDateToISO_try env dateValue =
     (case dateValue of
        Str s \<Rightarrow>
          (let dateParts = split CHR ''-'' (hd (split CHR ''T'' s)) in
           if length dateParts = 3 then Inr (Some (hd (split CHR ''T'' s)))
           else
             (let dateObj = newDate env (Str s) in
              bindE (getTime dateObj) (\<lambda>t.
                if t \<noteq> None then bindE (isoDatePart dateObj) (\<lambda>r. Inr (Some r))
                else Inr None)))
      | _ \<Rightarrow>
          (if isObject dateValue then
             (case dateValue of
                DateObj t \<Rightarrow> bindE (isoDatePart dateValue) (\<lambda>r. Inr (Some r))
              | _ \<Rightarrow>
                  (if isFunction (getProp dateValue ''toDate'') then
                     bindE (call (getProp dateValue ''toDate'')) (\<lambda>d.
                       bindE (isoDatePart d) (\<lambda>r. Inr (Some r)))
                   else Inr None))
           else Inr None))"

text \<open>The \<^verbatim>\<open>catch\<close> clause logs and returns null.\<close>

definition parseDateToISO :: "platform \<Rightarrow> jsval \<Rightarrow> js_error + string option" where
  "parseDateToISO env dateValue =
     (case parseDateToISO_try env dateValue of Inl e \<Rightarrow> Inr None | Inr r \<Rightarrow> Inr r)"

text \<open>
  A server timestamp on a whole second, as the store's client library hands it out: the
  raw fields and the conversion accessor, which gives the Date of the same instant.
\<close>

definition storeTimestamp :: "int \<Rightarrow> jsval" where
  "storeTimestamp secs =
     Obj [(''seconds'', Num (Some secs)), (''nanoseconds'', Num (Some 0)),
          (''toDate'', Fn (Some (DateObj (timeClip (Some (secs * 1000))))))]"

section \<open>Records of the dashboard (part_000)\<close>

record Schedule =
  schedule_id :: string
  moduleTitle :: string
  floorNumber :: string
  classroomNumber :: string
  lecturerName :: string
  branch :: string
  startTime :: string
  endTime :: string
  date :: jsval
  dayOfWeek :: string
  isRecurring :: bool
  moduleId :: "string option"
  courseId :: "string option"

record Course =
  course_id :: string
  course_title :: string
  course_code :: string
  course_level :: string
  course_description :: string
  course_department :: string
  course_duration :: int
  course_credits :: int
  course_modules :: "string list option"
  course_coordinator :: string
  course_status :: string

record Enrollment =
  enrollment_id :: string
  enrollment_studentId :: string
  enrollment_courseId :: string
  academicYear :: string
  semester :: int
  enrollment_status :: string

text \<open>A document of a collection whose fields the code probes one by one.\<close>

record doc =
  doc_id :: string
  doc_data :: "(string \<times> jsval) list"

text \<open>\<^verbatim>\<open>query(collection, where(k, "==", v))\<close> for a string \<open>v\<close>.\<close>

definition whereEq :: "string \<Rightarrow> string \<Rightarrow> doc list \<Rightarrow> doc list" where
  "whereEq k v docs = filter (\<lambda>d. map_of (doc_data d) k = Some (Str v)) docs"

text \<open>\<^verbatim>\<open>ids.includes(x)\<close> for an optional field \<open>x\<close> and a list of strings.\<close>

definition includes_str :: "string list \<Rightarrow> string option \<Rightarrow> bool" where
  "includes_str ids x = (case x of None \<Rightarrow> False | Some i \<Rightarrow> i \<in> set ids)"

section \<open>The enrollment join and the schedule list (\<^verbatim>\<open>fetchClassSchedules\<close>, part_000)\<close>

text \<open>The enrollments query, and the course ids and module ids read from it.\<close>

definition enrollmentsQuery :: "string \<Rightarrow> Enrollment list \<Rightarrow> Enrollment list" where
  "enrollmentsQuery uid enrollments = filter (\<lambda>e. enrollment_studentId e = uid) enrollments"

definition enrolledCourseIds :: "Enrollment list \<Rightarrow> string list" where
  "enrolledCourseIds enrollmentsSnapshot = map enrollment_courseId enrollmentsSnapshot"

definition modulesByEnrolledCourse :: "doc list \<Rightarrow> string list \<Rightarrow> string list list" where
  "modulesByEnrolledCourse modules ids =
     map (\<lambda>c. map doc_id (whereEq ''courseId'' c modules)) ids"

definition enrolledModuleIds :: "doc list \<Rightarrow> string list \<Rightarrow> string list" where
  "enrolledModuleIds modules ids = concat (modulesByEnrolledCourse modules ids)"

text \<open>
  The callback that rebuilds each schedule: a string date is kept, a value with a callable
  \<^verbatim>\<open>toDate\<close> is converted and printed (and may throw), any other value is kept.
\<close>

definition formatSchedule :: "Schedule \<Rightarrow> js_error + Schedule" where
  "formatSchedule data =
     (case date data of
        Str s \<Rightarrow> Inr data
      | formattedDate \<Rightarrow>
          (if truthy formattedDate \<and> isFunction (getProp formattedDate ''toDate'') then
             bindE (call (getProp formattedDate ''toDate'')) (\<lambda>d.
               bindE (isoDatePart d) (\<lambda>r. Inr (data\<lparr>date := Str r\<rparr>)))
           else Inr data))"

definition allSchedules :: "Schedule list \<Rightarrow> js_error + Schedule list" where
  "allSchedules schedulesSnapshot = mapE formatSchedule schedulesSnapshot"

definition studentSchedules :: "string list \<Rightarrow> string list \<Rightarrow> Schedule list \<Rightarrow> Schedule list" where
  "studentSchedules cids mids schedules =
     filter (\<lambda>schedule. includes_str cids (courseId schedule) \<or> includes_str mids (moduleId schedule))
       schedules"

text \<open>
  \<^verbatim>\<open>getDateValue\<close> of the sort comparator: the time value of a string, a Date or a
  converted timestamp, and 0 for every other value and for anything that throws.
\<close>

definition getDateValue :: "platform \<Rightarrow> jsval \<Rightarrow> number" where
  "getDateValue env dateStr =
     (case dateStr of
        Str s \<Rightarrow> (case getTime (newDate env (Str s)) of Inl e \<Rightarrow> Some 0 | Inr t \<Rightarrow> t)
      | _ \<Rightarrow>
          (if isObject dateStr then
             (case dateStr of
                DateObj t \<Rightarrow> t
              | _ \<Rightarrow>
                  (if isFunction (getProp dateStr ''toDate'') then
                     (case bindE (call (getProp dateStr ''toDate'')) getTime of
                        Inl e \<Rightarrow> Some 0
                      | Inr t \<Rightarrow> t)
                   else Some 0))
           else Some 0))"

text \<open>
  The comparator. \<^verbatim>\<open>dateA !== dateB\<close> holds whenever one side is NaN, and the
  difference is then NaN. The difference of two time values has the sign of their exact
  difference.
\<close>

definition compareSchedules :: "platform \<Rightarrow> Schedule \<Rightarrow> Schedule \<Rightarrow> number" where
  "compareSchedules env a b =
     (let dateA = getDateValue env (date a); dateB = getDateValue env (date b) in
      case (dateA, dateB) of
        (Some x, Some y) \<Rightarrow> (if x \<noteq> y then Some (x - y)
                             else Some (localeCompare env (startTime a) (startTime b)))
      | _ \<Rightarrow> None)"

text \<open>
  \<^verbatim>\<open>Array.prototype.sort\<close> with a comparator. The engine reads a NaN result as 0.
  The sort is stable, so for a comparator that is consistent on the elements the result is
  the one list a stable insertion sort computes; for any other comparator the language
  leaves the order to the engine, and the model stays with the insertion sort.
\<close>

definition sortCompare :: "('a \<Rightarrow> 'a \<Rightarrow> number) \<Rightarrow> 'a \<Rightarrow> 'a \<Rightarrow> int" where
  "sortCompare comparefn x y = (case comparefn x y of None \<Rightarrow> 0 | Some v \<Rightarrow> v)"

fun insertSorted :: "('a \<Rightarrow> 'a \<Rightarrow> number) \<Rightarrow> 'a \<Rightarrow> 'a list \<Rightarrow> 'a list" where
  "insertSorted comparefn x [] = [x]"
| "insertSorted comparefn x (y # ys) =
     (if sortCompare comparefn x y \<le> 0 then x # y # ys
      else y # insertSorted comparefn x ys)"

definition jsSort :: "('a \<Rightarrow> 'a \<Rightarrow> number) \<Rightarrow> 'a list \<Rightarrow> 'a list" where
  "jsSort comparefn xs = foldr (insertSorted comparefn) xs []"

text \<open>The two demo schedules of a development build with an empty store.\<close>

definition demoSchedules :: "platform \<Rightarrow> Schedule list" where
  "demoSchedules env =
     [\<lparr>schedule_id = ''demo1'', moduleTitle = ''Introduction to Programming'',
       floorNumber = ''2'', classroomNumber = ''201'', lecturerName = ''Dr. Smith'',
       branch = ''Main Campus'', startTime = ''09:00'', endTime = ''10:30'',
       date = Str (isoDateOf (currentTime env)),
       dayOfWeek = weekdayLong env (currentTime env), isRecurring = True,
       moduleId = Some ''demo-module-1'', courseId = None\<rparr>,
      \<lparr>schedule_id = ''demo2'', moduleTitle = ''Web Development'',
       floorNumber = ''3'', classroomNumber = ''305'', lecturerName = ''Prof. Johnson'',
       branch = ''Tech Building'', startTime = ''11:00'', endTime = ''12:30'',
       date = Str (isoDateOf (currentTime env)),
       dayOfWeek = weekdayLong env (currentTime env), isRecurring = True,
       moduleId = Some ''demo-module-2'', courseId = None\<rparr>]"

text \<open>
  The whole read. \<open>Inr l\<close> is \<^verbatim>\<open>setSchedules(l)\<close>; \<open>Inl e\<close> is the outer
  \<^verbatim>\<open>catch\<close>: a notification, and the schedule state left as it was.
\<close>

definition fetchClassSchedules ::
  "platform \<Rightarrow> string \<Rightarrow> Schedule list \<Rightarrow> Enrollment list \<Rightarrow> doc list \<Rightarrow> js_error + Schedule list" where
  "fetchClassSchedules env uid schedulesSnapshot enrollments modules =
     (if schedulesSnapshot = [] then
        (if NODE_ENV env = ''development'' then Inr (demoSchedules env) else Inr [])
      else
        (let enrollmentsSnapshot = enrollmentsQuery uid enrollments in
         if enrollmentsSnapshot = [] then Inr []
         else
           (let cids = enrolledCourseIds enrollmentsSnapshot;
                mids = enrolledModuleIds modules cids
            in bindE (allSchedules schedulesSnapshot) (\<lambda>all.
                 Inr (jsSort (compareSchedules env) (studentSchedules cids mids all))))))"

section \<open>Today's classes (\<^verbatim>\<open>renderDashboardSection\<close>, part_000)\<close>

definition todayFormatted :: "platform \<Rightarrow> string" where
  "todayFormatted env = isoDateOf (startOfLocalDay env (currentTime env))"

text \<open>The filter callback, with its own \<^verbatim>\<open>catch\<close> that answers false.\<close>

definition isToday :: "platform \<Rightarrow> Schedule \<Rightarrow> bool" where
  "isToday env schedule =
     (case parseDateToISO env (date schedule) of
        Inl e \<Rightarrow> False
      | Inr scheduleDateFormatted \<Rightarrow> scheduleDateFormatted = Some (todayFormatted env))"

text \<open>The placeholder class, built from the first enrolled course.\<close>

definition demoClass :: "platform \<Rightarrow> Course \<Rightarrow> Schedule" where
  "demoClass env c =
     \<lparr>schedule_id = ''today-demo'', moduleTitle = course_title c,
      floorNumber = ''1'', classroomNumber = ''101'', lecturerName = ''Dr. Demo'',
      branch = ''Main Campus'', startTime = ''10:00'', endTime = ''11:30'',
      date = Str (todayFormatted env),
      dayOfWeek = weekdayLong env (startOfLocalDay env (currentTime env)),
      isRecurring = False,
      moduleId = (case course_modules c of
                    None \<Rightarrow> None
                  | Some ms \<Rightarrow> (case ms of [] \<Rightarrow> None | m # rest \<Rightarrow> Some m)),
      courseId = None\<rparr>"

definition compareStartTime :: "platform \<Rightarrow> Schedule \<Rightarrow> Schedule \<Rightarrow> number" where
  "compareStartTime env a b = Some (localeCompare env (startTime a) (startTime b))"

definition todaysClasses :: "platform \<Rightarrow> Schedule list \<Rightarrow> Course list \<Rightarrow> Schedule list" where
  "todaysClasses env schedules enrolledCourses =
     (let found = filter (isToday env) schedules;
          shown = (if length found = 0 \<and> length enrolledCourses > 0
                   then [demoClass env (hd enrolledCourses)] else found)
      in jsSort (compareStartTime env) shown)"

section \<open>Modules of a course (\<^verbatim>\<open>fetchModules\<close>, part_001)\<close>

text \<open>\<^verbatim>\<open>doc.data().k\<close>: undefined for a field the document does not have.\<close>

definition dataField :: "doc \<Rightarrow> string \<Rightarrow> jsval" where
  "dataField d k = getProp (Obj (doc_data d)) k"

record Module =
  module_id :: string
  module_title :: jsval
  module_description :: jsval
  module_duration :: jsval
  module_credits :: jsval
  module_courseId :: jsval
  prerequisites :: jsval
  learningOutcomes :: jsval
  assessmentMethods :: jsval
  module_createdAt :: jsval
  module_updatedAt :: jsval

text \<open>\<^verbatim>\<open>ts ? new Date(ts.seconds * 1000) : new Date()\<close>.\<close>

definition secondsToDate :: "platform \<Rightarrow> jsval \<Rightarrow> jsval" where
  "secondsToDate env ts = newDate env (Num (times1000 (toNumber env (getProp ts ''seconds''))))"

definition adaptModule :: "platform \<Rightarrow> doc \<Rightarrow> Module" where
  "adaptModule env d =
     \<lparr>module_id = doc_id d,
      module_title = js_or (dataField d ''title'') (Str []),
      module_description = js_or (dataField d ''description'') (Str []),
      module_duration = js_or (dataField d ''duration'') (Num (Some 0)),
      module_credits = js_or (dataField d ''credits'') (Num (Some 0)),
      module_courseId = js_or (dataField d ''courseId'') (Str []),
      prerequisites = js_or (dataField d ''prerequisites'') (Arr []),
      learningOutcomes = js_or (dataField d ''learningOutcomes'') (Arr []),
      assessmentMethods = js_or (dataField d ''assessmentMethods'') (Arr []),
      module_createdAt =
        (if truthy (dataField d ''createdAt'') then secondsToDate env (dataField d ''createdAt'')
         else newDateNow env),
      module_updatedAt =
        (if truthy (dataField d ''updatedAt'') then secondsToDate env (dataField d ''updatedAt'')
         else newDateNow env)\<rparr>"

datatype role = student | lecturer

text \<open>\<^verbatim>\<open>viewingCourseId\<close> is a string or undefined; the empty string is falsy too.\<close>

definition truthyId :: "string option \<Rightarrow> bool" where
  "truthyId v = (case v of None \<Rightarrow> False | Some s \<Rightarrow> s \<noteq> [])"

definition allModules :: "platform \<Rightarrow> doc list \<Rightarrow> Module list" where
  "allModules env modulesSnapshot = map (adaptModule env) modulesSnapshot"

definition filteredModules :: "string option \<Rightarrow> Module list \<Rightarrow> Module list" where
  "filteredModules viewingCourseId ms =
     filter (\<lambda>m. Some (module_courseId m) = map_option Str viewingCourseId) ms"

text \<open>
  The list handed to \<^verbatim>\<open>setModules\<close>. When the filter finds nothing, the \<^verbatim>\<open>else\<close>
  branch writes one line to the console and the list stays the full one.
\<close>

definition fetchModules :: "platform \<Rightarrow> role \<Rightarrow> string option \<Rightarrow> doc list \<Rightarrow> Module list" where
  "fetchModules env r viewingCourseId modulesSnapshot =
     (let all = allModules env modulesSnapshot in
      if r = student \<and> truthyId viewingCourseId then
        (let filtered = filteredModules viewingCourseId all in
         if length filtered > 0 then filtered else all)
      else all)"

section \<open>Materials of a module (\<^verbatim>\<open>fetchMaterials\<close>, part_001)\<close>

text \<open>\<^verbatim>\<open>processTimestamp\<close>; only a \<^verbatim>\<open>toDate\<close> that throws makes it throw.\<close>

definition processTimestamp :: "platform \<Rightarrow> jsval \<Rightarrow> js_error + jsval" where
  "processTimestamp env timestamp =
     (if \<not> truthy timestamp then Inr (newDateNow env)
      else if truthy (getProp timestamp ''toDate'') \<and> isFunction (getProp timestamp ''toDate'')
        then bindE (call (getProp timestamp ''toDate'')) (\<lambda>d. Inr (newDate env d))
      else if isDate timestamp then Inr timestamp
      else if truthy (getProp timestamp ''seconds'') then Inr (secondsToDate env timestamp)
      else Inr (newDateNow env))"

record Material =
  material_id :: string
  material_moduleId :: jsval
  material_title :: jsval
  material_description :: jsval
  fileUrl :: jsval
  fileName :: jsval
  fileType :: jsval
  fileSize :: jsval
  uploadedBy :: jsval
  createdAt :: jsval
  updatedAt :: jsval

definition adaptMaterial :: "platform \<Rightarrow> string \<Rightarrow> doc \<Rightarrow> js_error + Material" where
  "adaptMaterial env moduleId' d =
     bindE (processTimestamp env (js_or (dataField d ''createdAt'') (dataField d ''uploadedAt''))) (\<lambda>c.
     bindE (processTimestamp env (js_or (dataField d ''updatedAt'') (dataField d ''uploadedAt''))) (\<lambda>u.
       Inr \<lparr>material_id = doc_id d,
            material_moduleId = js_or (dataField d ''moduleId'') (Str moduleId'),
            material_title = js_or (js_or (dataField d ''title'') (dataField d ''name'')) (Str ''Untitled''),
            material_description = js_or (dataField d ''description'') (Str []),
            fileUrl = js_or (dataField d ''fileUrl'') (Str []),
            fileName = js_or (js_or (js_or (dataField d ''fileName'') (dataField d ''name''))
                         (dataField d ''fileUrl'')) (Str ''Unknown file''),
            fileType = js_or (dataField d ''fileType'') (Str ''application/octet-stream''),
            fileSize = js_or (js_or (dataField d ''fileSize'') (dataField d ''size'')) (Num (Some 0)),
            uploadedBy = js_or (dataField d ''uploadedBy'') (Str []),
            createdAt = c,
            updatedAt = u\<rparr>))"

text \<open>
  The read: \<open>Inr l\<close> is the material list the component ends with (empty when the query
  finds nothing), \<open>Inl e\<close> the \<^verbatim>\<open>catch\<close>, with the list left empty and a notification.
\<close>

definition fetchMaterials :: "platform \<Rightarrow> string \<Rightarrow> doc list \<Rightarrow> js_error + Material list" where
  "fetchMaterials env moduleId' materials =
     (let materialsSnapshot = whereEq ''moduleId'' moduleId' materials in
      if materialsSnapshot = [] then Inr []
      else mapE (adaptMaterial env moduleId') materialsSnapshot)"

text \<open>A Date that is not an Invalid Date.\<close>

definition validDate :: "jsval \<Rightarrow> bool" where
  "validDate v = (case v of DateObj (Some t) \<Rightarrow> True | _ \<Rightarrow> False)"

section \<open>Shapes, sample data and a sample engine\<close>

text \<open>
  The three shapes the normalizer has a branch for: a string, a Date, and an object with a
  callable \<^verbatim>\<open>toDate\<close>.
\<close>

definition supportedType :: "jsval \<Rightarrow> bool" where
  "supportedType v =
     (case v of Str s \<Rightarrow> True | DateObj t \<Rightarrow> True
      | Obj fs \<Rightarrow> isFunction (getProp v ''toDate'') | _ \<Rightarrow> False)"

text \<open>Records with the fields the examples do not care about left empty.\<close>

definition scheduleOf ::
  "string \<Rightarrow> jsval \<Rightarrow> string \<Rightarrow> string \<Rightarrow> string option \<Rightarrow> string option \<Rightarrow> Schedule" where
  "scheduleOf i d st et m c =
     \<lparr>schedule_id = i, moduleTitle = [], floorNumber = [], classroomNumber = [],
      lecturerName = [], branch = [], startTime = st, endTime = et, date = d,
      dayOfWeek = [], isRecurring = False, moduleId = m, courseId = c\<rparr>"

definition enrollmentOf :: "string \<Rightarrow> string \<Rightarrow> string \<Rightarrow> Enrollment" where
  "enrollmentOf i s c =
     \<lparr>enrollment_id = i, enrollment_studentId = s, enrollment_courseId = c,
      academicYear = [], semester = 1, enrollment_status = ''Active''\<rparr>"

definition moduleDoc :: "string \<Rightarrow> string \<Rightarrow> doc" where
  "moduleDoc i c = \<lparr>doc_id = i, doc_data = [(''courseId'', Str c)]\<rparr>"

definition courseOf :: "string \<Rightarrow> string \<Rightarrow> string list option \<Rightarrow> Course" where
  "courseOf i t ms =
     \<lparr>course_id = i, course_title = t, course_code = [], course_level = [],
      course_description = [], course_department = [], course_duration = 0,
      course_credits = 0, course_modules = ms, course_coordinator = [],
      course_status = ''Active''\<rparr>"

definition sch1 :: Schedule where
  "sch1 = scheduleOf ''sch1'' (Str ''2024-03-10'') ''09:00'' ''10:00'' (Some ''m1'') None"

definition sch2 :: Schedule where
  "sch2 = scheduleOf ''sch2'' (Str ''2024-03-10'') ''08:00'' ''09:00'' None (Some ''c9'')"

text \<open>
  An engine in UTC at 2024-03-10T10:00:00Z, in a production build, that reads no date
  format beyond the ISO date-only form and collates strings other than clock times by
  their code units.
\<close>

definition utcEngine :: platform where
  "utcEngine =
     \<lparr>otherDateFormats = (\<lambda>s. None), currentTime = 1710064800000,
      startOfLocalDay = (\<lambda>t. t - t mod msPerDay), weekdayLong = (\<lambda>t. ''Sunday''),
      NODE_ENV = ''production'', toNumberOther = (\<lambda>v. None), timeValueOther = (\<lambda>v. None),
      collation = (\<lambda>a b. if a < b then - 1 else if a = b then 0 else 1)\<rparr>"

text \<open>The same engine in a development build.\<close>

definition devEngine :: platform where
  "devEngine = utcEngine\<lparr>NODE_ENV := ''development''\<rparr>"

text \<open>
  The ISO date-time form \<^verbatim>\<open>YYYY-MM-DDTHH:mm:ssZ\<close>, which every engine reads as that
  second of that day in UTC, and the sample engine that reads it.
\<close>

definition isoDateTimeZ :: "string \<Rightarrow> number" where
  "isoDateTimeZ s =
     (case split CHR ''T'' s of
        [d, t] \<Rightarrow>
          (case (isoDateOnly d, split CHR '':'' t) of
             (Some day, [hh, mm, ss]) \<Rightarrow>
               (if length hh = 2 \<and> length mm = 2 \<and> length ss = 3 \<and> last ss = CHR ''Z'' then
                  (case (parseDigits hh, parseDigits mm, parseDigits (butlast ss)) of
                     (Some h, Some m, Some sec) \<Rightarrow>
                       (if h \<le> 23 \<and> m \<le> 59 \<and> sec \<le> 59
                        then Some (day + int h * 3600000 + int m * 60000 + int sec * 1000)
                        else None)
                   | _ \<Rightarrow> None)
                else None)
           | _ \<Rightarrow> None)
      | _ \<Rightarrow> None)"

definition zuluEngine :: platform where
  "zuluEngine = utcEngine\<lparr>otherDateFormats := isoDateTimeZ\<rparr>"

text \<open>
  The student's enrolled course ids and enrolled module ids, said on the collections
  themselves: the courses named by the enrollments that carry the student's id, and the
  ids of the module documents whose courseId field is one of those courses.
\<close>

definition studentCourseIds :: "string \<Rightarrow> Enrollment list \<Rightarrow> string set" where
  "studentCourseIds uid enrollments =
     {c. \<exists>e \<in> set enrollments. enrollment_studentId e = uid \<and> enrollment_courseId e = c}"

definition studentModuleIds :: "string \<Rightarrow> Enrollment list \<Rightarrow> doc list \<Rightarrow> string set" where
  "studentModuleIds uid enrollments modules =
     {m. \<exists>d \<in> set modules. doc_id d = m
          \<and> (\<exists>c \<in> studentCourseIds uid enrollments. dataField d ''courseId'' = Str c)}"

text \<open>
  The time value a schedule date stands for in the sort: the instant a string parses to
  (NaN when it does not parse), the time value of a Date, the time value of the Date a
  timestamp wrapper converts to, and 0 for everything else.
\<close>

fun sortInstant :: "platform \<Rightarrow> jsval \<Rightarrow> number" where
  "sortInstant env (Str s) = Date_parse env s"
| "sortInstant env (DateObj t) = t"
| "sortInstant env (Obj fs) =
     (case map_of fs ''toDate'' of Some (Fn (Some (DateObj t))) \<Rightarrow> t | _ \<Rightarrow> Some 0)"
| "sortInstant env v = Some 0"

text \<open>
  Chronological order on schedules whose date has a time value: earlier instant first,
  and on the same instant the earlier clock time first (clock times of the same shape
  are ordered as their code units are).
\<close>

definition chronoLe :: "platform \<Rightarrow> Schedule \<Rightarrow> Schedule \<Rightarrow> bool" where
  "chronoLe env a b =
     (case (sortInstant env (date a), sortInstant env (date b)) of
        (Some x, Some y) \<Rightarrow> x < y \<or> (x = y \<and> startTime a \<le> startTime b)
      | _ \<Rightarrow> False)"

text \<open>
  The timestamps \<^verbatim>\<open>processTimestamp\<close> has no branch for: a falsy value, and a value
  that has no callable \<^verbatim>\<open>toDate\<close>, is no Date and has no truthy \<^verbatim>\<open>seconds\<close>.
\<close>

definition unrecognizedTimestamp :: "jsval \<Rightarrow> bool" where
  "unrecognizedTimestamp ts =
     (\<not> truthy ts
      \<or> (\<not> isFunction (getProp ts ''toDate'') \<and> \<not> isDate ts \<and> \<not> truthy (getProp ts ''seconds'')))"

definition materialDoc :: "string \<Rightarrow> string \<Rightarrow> jsval \<Rightarrow> doc" where
  "materialDoc i m created =
     \<lparr>doc_id = i, doc_data = [(''moduleId'', Str m), (''createdAt'', created)]\<rparr>"

section \<open>Facts about sorting and the exception plumbing\<close>

lemma mset_insertSorted: "mset (insertSorted f x ys) = add_mset x (mset ys)"
  by (induction ys) simp_all

lemma mset_jsSort: "mset (jsSort f xs) = mset xs"
  by (induction xs) (simp_all add: jsSort_def mset_insertSorted)

lemma set_jsSort: "set (jsSort f xs) = set xs"
  using mset_jsSort [of f xs] by (metis set_mset_mset)

lemma isoDateOf_2024_03_10: "isoDateOf 1710028800000 = ''2024-03-10''"
  by code_simp

lemma isoDatePart_2024_03_10:
  "isoDatePart (DateObj (Some 1710028800000)) = Inr ''2024-03-10''"
  using isoDateOf_2024_03_10 by (simp add: isoDatePart_def toISOString_def isoDateOf_def)

lemma todayFormatted_utcEngine: "todayFormatted utcEngine = ''2024-03-10''"
  using isoDateOf_2024_03_10 by (simp add: todayFormatted_def utcEngine_def msPerDay_def)

lemma isoDateOnly_2024_03_10: "isoDateOnly ''2024-03-10'' = Some 1710028800000"
  by code_simp

lemma isoDateOnly_2024_03_09: "isoDateOnly ''2024-03-09'' = Some 1709942400000"
  by code_simp

lemma isoDateOnly_empty: "isoDateOnly [] = None"
  by (simp add: isoDateOnly_def)

lemma fetchClassSchedules_returns:
  assumes "allSchedules ss = Inr all"
  shows "\<exists>l. fetchClassSchedules env uid ss es ms = Inr l"
  using assms by (simp add: fetchClassSchedules_def Let_def bindE_def)

lemma isoDateTimeZ_15: "isoDateTimeZ ''2024-03-10T15:00:00Z'' = Some 1710082800000"
  by code_simp

lemma isoDateTimeZ_09: "isoDateTimeZ ''2024-03-10T09:00:00Z'' = Some 1710061200000"
  by code_simp

lemma isoDateOnly_not_date_time:
  "isoDateOnly ''2024-03-10T15:00:00Z'' = None \<and> isoDateOnly ''2024-03-10T09:00:00Z'' = None"
  by code_simp

section \<open>The effective schedule list\<close>

lemma enrolledCourseIds_set:
  "set (enrolledCourseIds (enrollmentsQuery uid enrollments)) = studentCourseIds uid enrollments"
  by (auto simp: enrolledCourseIds_def enrollmentsQuery_def studentCourseIds_def)

lemma whereEq_set:
  "set (whereEq k v docs) = {d \<in> set docs. dataField d k = Str v}"
  by (auto simp: whereEq_def dataField_def split: option.splits)

lemma enrolledModuleIds_set:
  "set (enrolledModuleIds modules (enrolledCourseIds (enrollmentsQuery uid enrollments)))
   = studentModuleIds uid enrollments modules"
proof -
  have "set (enrolledModuleIds modules (enrolledCourseIds (enrollmentsQuery uid enrollments)))
        = (\<Union>c \<in> studentCourseIds uid enrollments. doc_id ` set (whereEq ''courseId'' c modules))"
    by (simp add: enrolledModuleIds_def modulesByEnrolledCourse_def enrolledCourseIds_set)
  also have "\<dots> = studentModuleIds uid enrollments modules"
    unfolding whereEq_set studentModuleIds_def by blast
  finally show ?thesis .
qed

lemma mapE_Inr_set:
  "mapE f xs = Inr ys \<Longrightarrow> set ys = {y. \<exists>x \<in> set xs. f x = Inr y}"
proof (induction xs arbitrary: ys)
  case Nil
  then show ?case by simp
next
  case (Cons x xs)
  from Cons.prems obtain y0 ys0 where s: "f x = Inr y0" "mapE f xs = Inr ys0" "ys = y0 # ys0"
    by (auto simp: bindE_def split: sum.splits)
  from Cons.IH [OF s(2)] have "set ys0 = {y. \<exists>x \<in> set xs. f x = Inr y}" .
  with s(1,3) show ?case by auto
qed

lemma allSchedules_strings:
  assumes "\<forall>s \<in> set ss. \<exists>x. date s = Str x"
  shows "allSchedules ss = Inr ss"
  using assms by (induction ss) (auto simp: allSchedules_def formatSchedule_def bindE_def)

lemma formatSchedule_string:
  "date x = Str d \<Longrightarrow> formatSchedule x = Inr x"
  by (simp add: formatSchedule_def)

lemma fetchClassSchedules_set:
  assumes "fetchClassSchedules env uid ss es ms = Inr l"
      and "\<not> (ss = [] \<and> NODE_ENV env = ''development'')"
  shows "set l = {s. (\<exists>raw \<in> set ss. formatSchedule raw = Inr s)
                   \<and> ((\<exists>c. courseId s = Some c \<and> c \<in> studentCourseIds uid es)
                      \<or> (\<exists>m. moduleId s = Some m \<and> m \<in> studentModuleIds uid es ms))}"
proof (cases "ss = []")
  case True
  with assms show ?thesis by (simp add: fetchClassSchedules_def)
next
  case False
  show ?thesis
  proof (cases "enrollmentsQuery uid es = []")
    case True
    with False assms(1) have l: "l = []" by (simp add: fetchClassSchedules_def)
    from True have "studentCourseIds uid es = {}"
      using enrolledCourseIds_set [of uid es] by (simp add: enrolledCourseIds_def)
    then have "studentCourseIds uid es = {} \<and> studentModuleIds uid es ms = {}"
      by (simp add: studentModuleIds_def)
    with l show ?thesis by simp
  next
    case ne: False
    with False assms(1) obtain all where all: "allSchedules ss = Inr all"
      and l: "set l = set (studentSchedules (enrolledCourseIds (enrollmentsQuery uid es))
        (enrolledModuleIds ms (enrolledCourseIds (enrollmentsQuery uid es))) all)"
      by (auto simp: fetchClassSchedules_def Let_def bindE_def set_jsSort split: sum.splits)
    from all have sa: "set all = {y. \<exists>x \<in> set ss. formatSchedule x = Inr y}"
      unfolding allSchedules_def by (rule mapE_Inr_set)
    have "set (studentSchedules (enrolledCourseIds (enrollmentsQuery uid es))
        (enrolledModuleIds ms (enrolledCourseIds (enrollmentsQuery uid es))) all)
        = {s \<in> set all. (\<exists>c. courseId s = Some c \<and> c \<in> studentCourseIds uid es)
                      \<or> (\<exists>m. moduleId s = Some m \<and> m \<in> studentModuleIds uid es ms)}"
      by (auto simp: studentSchedules_def includes_str_def enrolledCourseIds_set
          enrolledModuleIds_set split: option.splits)
    with l sa show ?thesis by auto
  qed
qed

lemma fetchClassSchedules_strings_return:
  assumes "\<forall>x \<in> set ss. \<exists>d. date x = Str d"
  shows "\<exists>l. fetchClassSchedules env uid ss es ms = Inr l"
  using allSchedules_strings [OF assms]
  by (simp add: fetchClassSchedules_def Let_def bindE_def)

text \<open>
  C1 as stated fails on one gate of the source: in a development build an empty schedule
  collection is answered with two demo schedules, which are in the list although no
  enrollment reaches them (they name no course, and their modules are not the student's).
\<close>

theorem demo_schedules_counterexample:
  "fetchClassSchedules devEngine ''s1'' [] [enrollmentOf ''e1'' ''s1'' ''c1'']
     [moduleDoc ''m1'' ''c1''] = Inr (demoSchedules devEngine)
   \<and> map schedule_id (demoSchedules devEngine) = [''demo1'', ''demo2'']
   \<and> map courseId (demoSchedules devEngine) = [None, None]
   \<and> map moduleId (demoSchedules devEngine) = [Some ''demo-module-1'', Some ''demo-module-2'']
   \<and> enrolledCourseIds (enrollmentsQuery ''s1'' [enrollmentOf ''e1'' ''s1'' ''c1'']) = [''c1'']
   \<and> enrolledModuleIds [moduleDoc ''m1'' ''c1''] [''c1''] = [''m1'']"
  by (simp add: fetchClassSchedules_def devEngine_def utcEngine_def demoSchedules_def
      enrolledCourseIds_def enrollmentsQuery_def enrollmentOf_def enrolledModuleIds_def
      modulesByEnrolledCourse_def whereEq_def moduleDoc_def)

text \<open>
  C1, amended. Outside a development build facing an empty schedule collection, whenever
  the read succeeds a schedule is in the list handed to the component exactly if it is a
  (date-formatted) schedule of the collection and its courseId is the course of one of the
  enrollments carrying the student's id, or its moduleId is the id of a module document
  whose courseId field is such a course. When every stored date is a string the read
  succeeds and the list is drawn from the collection as it is. On the scenario of the
  specification (one enrollment of s1 in c1, module m1 of c1, sch1 on module m1 and sch2
  on course c9) the list is sch1 alone, on every engine.
\<close>

theorem effective_schedules_iff:
  "(fetchClassSchedules env uid schedulesSnapshot enrollments modules = Inr l
      \<and> \<not> (schedulesSnapshot = [] \<and> NODE_ENV env = ''development'')
    \<longrightarrow> (s \<in> set l \<longleftrightarrow>
           (\<exists>raw \<in> set schedulesSnapshot. formatSchedule raw = Inr s)
           \<and> ((\<exists>c. courseId s = Some c \<and> c \<in> studentCourseIds uid enrollments)
              \<or> (\<exists>m. moduleId s = Some m \<and> m \<in> studentModuleIds uid enrollments modules))))
   \<and> ((\<forall>x \<in> set schedulesSnapshot. \<exists>d. date x = Str d)
      \<and> \<not> (schedulesSnapshot = [] \<and> NODE_ENV env = ''development'')
    \<longrightarrow> (\<exists>k. fetchClassSchedules env uid schedulesSnapshot enrollments modules = Inr k
          \<and> (s \<in> set k \<longleftrightarrow>
               s \<in> set schedulesSnapshot
               \<and> ((\<exists>c. courseId s = Some c \<and> c \<in> studentCourseIds uid enrollments)
                  \<or> (\<exists>m. moduleId s = Some m \<and> m \<in> studentModuleIds uid enrollments modules)))))
   \<and> fetchClassSchedules env ''s1'' [sch1, sch2] [enrollmentOf ''e1'' ''s1'' ''c1'']
        [moduleDoc ''m1'' ''c1''] = Inr [sch1]"
proof (intro conjI impI)
  assume "fetchClassSchedules env uid schedulesSnapshot enrollments modules = Inr l
      \<and> \<not> (schedulesSnapshot = [] \<and> NODE_ENV env = ''development'')"
  then have "set l = {s. (\<exists>raw \<in> set schedulesSnapshot. formatSchedule raw = Inr s)
                   \<and> ((\<exists>c. courseId s = Some c \<and> c \<in> studentCourseIds uid enrollments)
                      \<or> (\<exists>m. moduleId s = Some m \<and> m \<in> studentModuleIds uid enrollments modules))}"
    using fetchClassSchedules_set [of env uid schedulesSnapshot enrollments modules l] by blast
  then show "s \<in> set l \<longleftrightarrow>
           (\<exists>raw \<in> set schedulesSnapshot. formatSchedule raw = Inr s)
           \<and> ((\<exists>c. courseId s = Some c \<and> c \<in> studentCourseIds uid enrollments)
              \<or> (\<exists>m. moduleId s = Some m \<and> m \<in> studentModuleIds uid enrollments modules))"
    by simp
next
  assume a: "(\<forall>x \<in> set schedulesSnapshot. \<exists>d. date x = Str d)
      \<and> \<not> (schedulesSnapshot = [] \<and> NODE_ENV env = ''development'')"
  then obtain k where k: "fetchClassSchedules env uid schedulesSnapshot enrollments modules = Inr k"
    using fetchClassSchedules_strings_return [of schedulesSnapshot env uid enrollments modules]
    by blast
  from a have fs: "(\<exists>raw \<in> set schedulesSnapshot. formatSchedule raw = Inr s)
                   \<longleftrightarrow> s \<in> set schedulesSnapshot"
    using formatSchedule_string by (metis sum.inject(2))
  from k a have "set k = {s. (\<exists>raw \<in> set schedulesSnapshot. formatSchedule raw = Inr s)
                   \<and> ((\<exists>c. courseId s = Some c \<and> c \<in> studentCourseIds uid enrollments)
                      \<or> (\<exists>m. moduleId s = Some m \<and> m \<in> studentModuleIds uid enrollments modules))}"
    using fetchClassSchedules_set [of env uid schedulesSnapshot enrollments modules k] by blast
  with fs have "s \<in> set k \<longleftrightarrow>
               s \<in> set schedulesSnapshot
               \<and> ((\<exists>c. courseId s = Some c \<and> c \<in> studentCourseIds uid enrollments)
                  \<or> (\<exists>m. moduleId s = Some m \<and> m \<in> studentModuleIds uid enrollments modules))"
    by simp
  with k show "\<exists>k. fetchClassSchedules env uid schedulesSnapshot enrollments modules = Inr k
          \<and> (s \<in> set k \<longleftrightarrow>
               s \<in> set schedulesSnapshot
               \<and> ((\<exists>c. courseId s = Some c \<and> c \<in> studentCourseIds uid enrollments)
                  \<or> (\<exists>m. moduleId s = Some m \<and> m \<in> studentModuleIds uid enrollments modules)))"
    by blast
next
  show "fetchClassSchedules env ''s1'' [sch1, sch2] [enrollmentOf ''e1'' ''s1'' ''c1'']
        [moduleDoc ''m1'' ''c1''] = Inr [sch1]"
    by (simp add: fetchClassSchedules_def enrollmentsQuery_def enrollmentOf_def
        enrolledCourseIds_def enrolledModuleIds_def modulesByEnrolledCourse_def whereEq_def
        moduleDoc_def allSchedules_def formatSchedule_def sch1_def sch2_def scheduleOf_def
        bindE_def studentSchedules_def includes_str_def jsSort_def)
qed

lemma two_students_example:
  "fetchClassSchedules utcEngine ''s1''
     [sch1, sch2, scheduleOf ''sch3'' (Str ''2024-03-10'') ''11:00'' ''12:00'' (Some ''m9'') None]
     [enrollmentOf ''e1'' ''s1'' ''c1'', enrollmentOf ''e2'' ''s2'' ''c9'']
     [moduleDoc ''m1'' ''c1'', moduleDoc ''m9'' ''c9''] = Inr [sch1]"
  by (simp add: fetchClassSchedules_def enrollmentsQuery_def enrollmentOf_def
      enrolledCourseIds_def enrolledModuleIds_def modulesByEnrolledCourse_def whereEq_def
      moduleDoc_def allSchedules_def formatSchedule_def sch1_def sch2_def scheduleOf_def
      bindE_def studentSchedules_def includes_str_def jsSort_def)

theorem effective_schedules_iff_witness:
  "fetchClassSchedules utcEngine ''s1''
     [sch1, sch2, scheduleOf ''sch3'' (Str ''2024-03-10'') ''11:00'' ''12:00'' (Some ''m9'') None]
     [enrollmentOf ''e1'' ''s1'' ''c1'', enrollmentOf ''e2'' ''s2'' ''c9'']
     [moduleDoc ''m1'' ''c1'', moduleDoc ''m9'' ''c9''] = Inr [sch1]
   \<and> NODE_ENV utcEngine \<noteq> ''development''
   \<and> sch2 \<notin> set [sch1]
   \<and> formatSchedule sch2 = Inr sch2
   \<and> courseId sch2 = Some ''c9'' \<and> moduleId sch2 = None
   \<and> ''c9'' \<notin> studentCourseIds ''s1''
         [enrollmentOf ''e1'' ''s1'' ''c1'', enrollmentOf ''e2'' ''s2'' ''c9'']
   \<and> ''c9'' \<in> studentCourseIds ''s2''
         [enrollmentOf ''e1'' ''s1'' ''c1'', enrollmentOf ''e2'' ''s2'' ''c9'']
   \<and> ''m9'' \<notin> studentModuleIds ''s1''
         [enrollmentOf ''e1'' ''s1'' ''c1'', enrollmentOf ''e2'' ''s2'' ''c9'']
         [moduleDoc ''m1'' ''c1'', moduleDoc ''m9'' ''c9'']
   \<and> ''m1'' \<in> studentModuleIds ''s1''
         [enrollmentOf ''e1'' ''s1'' ''c1'', enrollmentOf ''e2'' ''s2'' ''c9'']
         [moduleDoc ''m1'' ''c1'', moduleDoc ''m9'' ''c9'']"
  using two_students_example
    effective_schedules_iff [of utcEngine "''s1''"
      "[sch1, sch2, scheduleOf ''sch3'' (Str ''2024-03-10'') ''11:00'' ''12:00'' (Some ''m9'') None]"
      "[enrollmentOf ''e1'' ''s1'' ''c1'', enrollmentOf ''e2'' ''s2'' ''c9'']"
      "[moduleDoc ''m1'' ''c1'', moduleDoc ''m9'' ''c9'']" "[sch1]" sch2]
  by (simp add: studentCourseIds_def studentModuleIds_def enrollmentOf_def moduleDoc_def
      dataField_def formatSchedule_def sch1_def sch2_def scheduleOf_def utcEngine_def)

section \<open>The chronological sort\<close>

lemma set_insertSorted: "set (insertSorted f x ys) = insert x (set ys)"
  using mset_insertSorted [of f x ys] by (metis set_mset_add_mset_insert set_mset_mset)

lemma getDateValue_sortInstant: "getDateValue env v = sortInstant env v"
proof (cases v)
  case (Obj fs)
  show ?thesis
  proof (cases "map_of fs ''toDate''")
    case None
    with Obj show ?thesis by (simp add: getDateValue_def isObject_def isFunction_def)
  next
    case (Some f)
    show ?thesis
    proof (cases f)
      case (Fn r)
      show ?thesis
      proof (cases r)
        case None
        with Obj Some Fn show ?thesis
          by (simp add: getDateValue_def isObject_def isFunction_def call_def bindE_def)
      next
        case (Some d)
        with Obj \<open>map_of fs ''toDate'' = Some f\<close> Fn show ?thesis
          by (cases d)
            (simp_all add: getDateValue_def isObject_def isFunction_def call_def bindE_def
              getTime_def)
      qed
    qed (use Obj Some in \<open>simp_all add: getDateValue_def isObject_def isFunction_def\<close>)
  qed
qed (simp_all add: getDateValue_def isObject_def isFunction_def newDate_def getTime_def)

lemma localeCompare_clock:
  assumes "isClockTime a" and "isClockTime b"
  shows "localeCompare env a b \<le> 0 \<longleftrightarrow> a \<le> b"
  using assms by (auto simp: localeCompare_def)

lemma sortCompare_chronoLe:
  assumes "sortInstant env (date a) \<noteq> None" and "sortInstant env (date b) \<noteq> None"
      and "isClockTime (startTime a)" and "isClockTime (startTime b)"
  shows "sortCompare (compareSchedules env) a b \<le> 0 \<longleftrightarrow> chronoLe env a b"
proof -
  from assms(1,2) obtain x y where xy: "sortInstant env (date a) = Some x"
      "sortInstant env (date b) = Some y"
    by auto
  show ?thesis
  proof (cases "x = y")
    case True
    with xy localeCompare_clock [OF assms(3,4), of env] show ?thesis
      by (simp add: sortCompare_def compareSchedules_def chronoLe_def getDateValue_sortInstant)
  next
    case False
    with xy show ?thesis
      by (auto simp: sortCompare_def compareSchedules_def chronoLe_def getDateValue_sortInstant)
  qed
qed

lemma chronoLe_total:
  assumes "sortInstant env (date a) \<noteq> None" and "sortInstant env (date b) \<noteq> None"
  shows "chronoLe env a b \<or> chronoLe env b a"
proof -
  from assms obtain x y where "sortInstant env (date a) = Some x"
      "sortInstant env (date b) = Some y"
    by auto
  then show ?thesis
    by (auto simp: chronoLe_def)
qed

lemma chronoLe_trans:
  assumes "chronoLe env a b" and "chronoLe env b c"
  shows "chronoLe env a c"
proof -
  from assms obtain x y z where "sortInstant env (date a) = Some x"
      "sortInstant env (date b) = Some y" "sortInstant env (date c) = Some z"
    by (auto simp: chronoLe_def split: option.splits)
  with assms show ?thesis
    by (auto simp: chronoLe_def)
qed

lemma sorted_insertSorted:
  assumes "sortInstant env (date x) \<noteq> None \<and> isClockTime (startTime x)"
      and "\<forall>y \<in> set ys. sortInstant env (date y) \<noteq> None \<and> isClockTime (startTime y)"
      and "sorted_wrt (chronoLe env) ys"
  shows "sorted_wrt (chronoLe env) (insertSorted (compareSchedules env) x ys)"
  using assms(2,3)
proof (induction ys)
  case Nil
  then show ?case by simp
next
  case (Cons y ys)
  have vy: "sortInstant env (date y) \<noteq> None" "isClockTime (startTime y)"
    using Cons.prems(1) by simp_all
  have vx: "sortInstant env (date x) \<noteq> None" "isClockTime (startTime x)"
    using assms(1) by simp_all
  note eq = sortCompare_chronoLe [OF vx(1) vy(1) vx(2) vy(2)]
  show ?case
  proof (cases "sortCompare (compareSchedules env) x y \<le> 0")
    case True
    then have xy: "chronoLe env x y" using eq by simp
    have "\<forall>z \<in> set ys. chronoLe env x z"
      using Cons.prems(2) xy chronoLe_trans by auto
    with True xy Cons.prems(2) show ?thesis by simp
  next
    case False
    then have "\<not> chronoLe env x y" using eq by simp
    then have yx: "chronoLe env y x"
      using chronoLe_total [OF vx(1) vy(1)] by blast
    have "sorted_wrt (chronoLe env) (insertSorted (compareSchedules env) x ys)"
      using Cons.IH Cons.prems by simp
    with False yx Cons.prems(2) show ?thesis
      by (simp add: set_insertSorted)
  qed
qed

lemma sorted_jsSort:
  assumes "\<forall>s \<in> set xs. sortInstant env (date s) \<noteq> None \<and> isClockTime (startTime s)"
  shows "sorted_wrt (chronoLe env) (jsSort (compareSchedules env) xs)"
  using assms
proof (induction xs)
  case Nil
  then show ?case by (simp add: jsSort_def)
next
  case (Cons x xs)
  have "sorted_wrt (chronoLe env) (insertSorted (compareSchedules env) x
          (jsSort (compareSchedules env) xs))"
  proof (rule sorted_insertSorted)
    show "sortInstant env (date x) \<noteq> None \<and> isClockTime (startTime x)"
      using Cons.prems by simp
    show "\<forall>y \<in> set (jsSort (compareSchedules env) xs).
            sortInstant env (date y) \<noteq> None \<and> isClockTime (startTime y)"
      using Cons.prems by (simp add: set_jsSort)
    show "sorted_wrt (chronoLe env) (jsSort (compareSchedules env) xs)"
      using Cons.IH Cons.prems by simp
  qed
  then show ?case by (simp add: jsSort_def)
qed

lemma sortInstant_unsupported: "\<not> supportedType v \<Longrightarrow> sortInstant env v = Some 0"
  by (cases v) (auto simp: supportedType_def isFunction_def split: option.splits jsval.splits)

text \<open>
  C2 as stated fails twice. First, on the sort key: two schedules on the same calendar day
  whose date strings carry a time are ordered by that instant, so the one starting at
  09:00 comes before the one starting at 08:00. Second, on where an unreadable date goes:
  a bare number is no date to the normalizer (null) and counts as time value 0 in the
  comparator, so the entry is sorted before the entry with a valid date, and the read as a
  whole hands on the same order; an empty date string has the time value NaN, every
  comparison with it reads as 0, and the stable sort leaves the entry where it was, in
  front of the valid one.
\<close>

theorem unparsable_date_sorts_first_counterexample:
  "parseDateToISO zuluEngine (Str ''2024-03-10T15:00:00Z'') = Inr (Some ''2024-03-10'')
   \<and> parseDateToISO zuluEngine (Str ''2024-03-10T09:00:00Z'') = Inr (Some ''2024-03-10'')
   \<and> jsSort (compareSchedules zuluEngine)
        [scheduleOf ''early'' (Str ''2024-03-10T15:00:00Z'') ''08:00'' ''09:00'' None None,
         scheduleOf ''late'' (Str ''2024-03-10T09:00:00Z'') ''09:00'' ''10:00'' None None]
      = [scheduleOf ''late'' (Str ''2024-03-10T09:00:00Z'') ''09:00'' ''10:00'' None None,
         scheduleOf ''early'' (Str ''2024-03-10T15:00:00Z'') ''08:00'' ''09:00'' None None]
   \<and> parseDateToISO utcEngine (Num (Some 1710028800)) = Inr None
   \<and> parseDateToISO utcEngine (Str ''2024-03-10'') = Inr (Some ''2024-03-10'')
   \<and> jsSort (compareSchedules utcEngine)
        [sch1, scheduleOf ''bad'' (Num (Some 1710028800)) ''09:00'' ''10:00'' (Some ''m1'') None]
      = [scheduleOf ''bad'' (Num (Some 1710028800)) ''09:00'' ''10:00'' (Some ''m1'') None, sch1]
   \<and> fetchClassSchedules utcEngine ''s1''
        [sch1, scheduleOf ''bad'' (Num (Some 1710028800)) ''09:00'' ''10:00'' (Some ''m1'') None]
        [enrollmentOf ''e1'' ''s1'' ''c1''] [moduleDoc ''m1'' ''c1'']
      = Inr [scheduleOf ''bad'' (Num (Some 1710028800)) ''09:00'' ''10:00'' (Some ''m1'') None, sch1]
   \<and> parseDateToISO utcEngine (Str []) = Inr None
   \<and> jsSort (compareSchedules utcEngine)
        [scheduleOf ''nodate'' (Str []) ''09:00'' ''10:00'' (Some ''m1'') None, sch1]
      = [scheduleOf ''nodate'' (Str []) ''09:00'' ''10:00'' (Some ''m1'') None, sch1]"
  using isoDateOnly_empty isoDateOnly_not_date_time isoDateTimeZ_15 isoDateTimeZ_09
  by (simp add: parseDateToISO_def parseDateToISO_try_def isObject_def isFunction_def
        fetchClassSchedules_def enrollmentsQuery_def enrollmentOf_def
        enrolledCourseIds_def enrolledModuleIds_def modulesByEnrolledCourse_def whereEq_def
        moduleDoc_def allSchedules_def formatSchedule_def sch1_def scheduleOf_def
        bindE_def studentSchedules_def includes_str_def jsSort_def compareSchedules_def
        getDateValue_def newDate_def getTime_def Date_parse_def sortCompare_def
        isoDateOnly_2024_03_10 zuluEngine_def utcEngine_def)

text \<open>
  C2, amended. For every list of schedules whose dates all have a time value (every date
  but a string the engine cannot read and an Invalid Date) and whose start times are
  zero-padded clock times, the sort returns a permutation of the list that is
  non-decreasing in the time value of the date, the instant and not the calendar day, and
  then in the start time; it is a function of the list, and on such schedules no
  comparison throws. The time value the comparator reads is the instant a string parses
  to, the time value of a Date, and the time value of the Date a timestamp wrapper
  converts to; a date of any other shape counts as time value 0, the epoch, so such an
  entry goes before every entry dated after 1970.
\<close>

theorem sortChronological_sorted:
  "((\<forall>s \<in> set xs. sortInstant env (date s) \<noteq> None \<and> isClockTime (startTime s))
    \<longrightarrow> sorted_wrt (chronoLe env) (jsSort (compareSchedules env) xs))
   \<and> mset (jsSort (compareSchedules env) xs) = mset xs
   \<and> getDateValue env v = sortInstant env v
   \<and> (\<not> supportedType v \<longrightarrow> getDateValue env v = Some 0)"
  using sorted_jsSort [of xs env] mset_jsSort [of "compareSchedules env" xs]
    getDateValue_sortInstant [of env v] sortInstant_unsupported [of v env]
  by simp

lemma sort_example:
  "jsSort (compareSchedules utcEngine)
     [sch1, sch2, scheduleOf ''old'' (Str ''2024-03-09'') ''23:00'' ''23:30'' None None,
      scheduleOf ''native'' (DateObj (Some 1710028800000)) ''07:00'' ''07:30'' None None,
      scheduleOf ''wrapped'' (storeTimestamp 1710028800) ''06:00'' ''06:30'' None None]
   = [scheduleOf ''old'' (Str ''2024-03-09'') ''23:00'' ''23:30'' None None,
      scheduleOf ''wrapped'' (storeTimestamp 1710028800) ''06:00'' ''06:30'' None None,
      scheduleOf ''native'' (DateObj (Some 1710028800000)) ''07:00'' ''07:30'' None None,
      sch2, sch1]"
  by (simp add: sch1_def sch2_def scheduleOf_def jsSort_def compareSchedules_def
      getDateValue_sortInstant Date_parse_def sortCompare_def localeCompare_def
      isClockTime_def digitVal_def isoDateOnly_2024_03_10 isoDateOnly_2024_03_09
      storeTimestamp_def timeClip_def)

theorem sortChronological_sorted_witness:
  "sortInstant utcEngine (date sch1) = Some 1710028800000
   \<and> sortInstant utcEngine (date sch2) = Some 1710028800000
   \<and> sortInstant utcEngine (Str ''2024-03-09'') = Some 1709942400000
   \<and> sortInstant utcEngine (DateObj (Some 1710028800000)) = Some 1710028800000
   \<and> sortInstant utcEngine (storeTimestamp 1710028800) = Some 1710028800000
   \<and> isClockTime ''09:00'' \<and> isClockTime ''08:00'' \<and> isClockTime ''23:00''
   \<and> isClockTime ''07:00'' \<and> isClockTime ''06:00''
   \<and> sorted_wrt (chronoLe utcEngine)
        [scheduleOf ''old'' (Str ''2024-03-09'') ''23:00'' ''23:30'' None None,
         scheduleOf ''wrapped'' (storeTimestamp 1710028800) ''06:00'' ''06:30'' None None,
         scheduleOf ''native'' (DateObj (Some 1710028800000)) ''07:00'' ''07:30'' None None,
         sch2, sch1]
   \<and> \<not> supportedType Null \<and> getDateValue utcEngine Null = Some 0"
  using sort_example
    sortChronological_sorted [of
      "[sch1, sch2, scheduleOf ''old'' (Str ''2024-03-09'') ''23:00'' ''23:30'' None None,
        scheduleOf ''native'' (DateObj (Some 1710028800000)) ''07:00'' ''07:30'' None None,
        scheduleOf ''wrapped'' (storeTimestamp 1710028800) ''06:00'' ''06:30'' None None]"
      utcEngine Null]
  by (simp add: sch1_def sch2_def scheduleOf_def Date_parse_def isClockTime_def digitVal_def
      isoDateOnly_2024_03_10 isoDateOnly_2024_03_09 storeTimestamp_def timeClip_def
      supportedType_def del: sorted_wrt.simps)

section \<open>The date normalizer\<close>

lemma parseDateToISO_returns: "\<exists>r. parseDateToISO env v = Inr r"
  by (simp add: parseDateToISO_def split: sum.split)

lemma parseDateToISO_empty: "parseDateToISO env (Str []) = Inr None"
  by (simp add: parseDateToISO_def parseDateToISO_try_def newDate_def Date_parse_def
      isoDateOnly_def getTime_def bindE_def)

lemma parseDateToISO_unsupported:
  "\<not> supportedType v \<Longrightarrow> parseDateToISO env v = Inr None"
  by (cases v) (simp_all add: parseDateToISO_def parseDateToISO_try_def supportedType_def
      isObject_def isFunction_def)

text \<open>
  C3. The normalizer never throws: on every value and every engine it returns, a date
  string or null. It returns null for the empty string, for a bare number, and for every
  value that is none of the three supported shapes.
\<close>

theorem parseDateToISO_total:
  "(\<exists>r. parseDateToISO env v = Inr r)
   \<and> parseDateToISO env (Str []) = Inr None
   \<and> parseDateToISO env (Num n) = Inr None
   \<and> (\<not> supportedType v \<longrightarrow> parseDateToISO env v = Inr None)"
  using parseDateToISO_returns [of env v] parseDateToISO_empty [of env]
    parseDateToISO_unsupported [of v env] parseDateToISO_unsupported [of "Num n" env]
  by (simp add: supportedType_def)

theorem parseDateToISO_total_witness:
  "\<not> supportedType (Bool True)
   \<and> parseDateToISO utcEngine (Bool True) = Inr None
   \<and> parseDateToISO utcEngine (Str []) = Inr None
   \<and> parseDateToISO utcEngine (Num (Some 1710028800)) = Inr None"
  using parseDateToISO_total [of utcEngine "Bool True" "Some 1710028800"]
  by (simp add: supportedType_def)

text \<open>
  C4, at the input where the source departs from it. The string 2024-02-30 names no
  calendar day (the date-only reader rejects it), yet the normalizer hands it back as a
  date: a string whose date portion has three hyphen-separated parts is returned without
  being read, while every other branch answers null for an invalid date.
\<close>

theorem parseDateToISO_keeps_invalid_calendar_date:
  "parseDateToISO env (Str ''2024-02-30'') = Inr (Some ''2024-02-30'')
   \<and> isoDateOnly ''2024-02-30'' = None
   \<and> parseDateToISO env (DateObj None) = Inr None"
  by (simp add: parseDateToISO_def parseDateToISO_try_def isoDateOnly_def digitVal_def
      daysInMonth_def isLeapYear_def isObject_def isoDatePart_def toISOString_def bindE_def)

text \<open>
  C5 as stated fails on a wrapper that exposes the raw seconds field and nothing else:
  the normalizer has no branch for it and answers null, so the entry does not match the
  string-encoded date and is not among today's classes.
\<close>

theorem raw_seconds_wrapper_counterexample:
  "parseDateToISO utcEngine
     (Obj [(''seconds'', Num (Some 1710028800)), (''nanoseconds'', Num (Some 0))]) = Inr None
   \<and> parseDateToISO utcEngine (Str ''2024-03-10'') = Inr (Some ''2024-03-10'')
   \<and> todayFormatted utcEngine = ''2024-03-10''
   \<and> filter (isToday utcEngine)
        [scheduleOf ''a'' (Obj [(''seconds'', Num (Some 1710028800)), (''nanoseconds'', Num (Some 0))])
           ''09:00'' ''10:00'' None None,
         scheduleOf ''b'' (Str ''2024-03-10'') ''09:00'' ''10:00'' None None]
      = [scheduleOf ''b'' (Str ''2024-03-10'') ''09:00'' ''10:00'' None None]"
  using todayFormatted_utcEngine
  by (simp add: parseDateToISO_def parseDateToISO_try_def isObject_def isFunction_def
      isToday_def scheduleOf_def)

lemma parseDateToISO_accessor:
  assumes "map_of fs ''toDate'' = Some (Fn (Some (DateObj (Some 1710028800000))))"
  shows "parseDateToISO env (Obj fs) = Inr (Some ''2024-03-10'')"
  using assms
  by (simp add: parseDateToISO_def parseDateToISO_try_def isObject_def isFunction_def
      call_def bindE_def isoDatePart_2024_03_10)

lemma parseDateToISO_string_2024_03_10:
  "parseDateToISO env (Str ''2024-03-10'') = Inr (Some ''2024-03-10'')"
  by (simp add: parseDateToISO_def parseDateToISO_try_def)

text \<open>
  C5, amended. A timestamp wrapper whose conversion accessor \<^verbatim>\<open>toDate\<close> gives the
  instant 1710028800 s (as the store's own timestamp with seconds 1710028800 does)
  normalizes to 2024-03-10, the same as the string 2024-03-10, and on a day whose
  formatted date is 2024-03-10 the filter for today's classes keeps both schedules.
\<close>

theorem timestamp_accessor_normalizes:
  "(map_of fs ''toDate'' = Some (Fn (Some (DateObj (Some (1710028800 * 1000)))))
    \<longrightarrow> parseDateToISO env (Obj fs) = Inr (Some ''2024-03-10'')
      \<and> parseDateToISO env (Obj fs) = parseDateToISO env (Str ''2024-03-10'')
      \<and> (todayFormatted env = ''2024-03-10'' \<and> date a = Obj fs \<and> date b = Str ''2024-03-10''
         \<longrightarrow> filter (isToday env) [a, b] = [a, b]))
   \<and> map_of (case storeTimestamp 1710028800 of Obj gs \<Rightarrow> gs | _ \<Rightarrow> []) ''toDate''
       = Some (Fn (Some (DateObj (Some (1710028800 * 1000)))))"
proof (intro conjI impI)
  assume h: "map_of fs ''toDate'' = Some (Fn (Some (DateObj (Some (1710028800 * 1000)))))"
  then show p: "parseDateToISO env (Obj fs) = Inr (Some ''2024-03-10'')"
    using parseDateToISO_accessor [of fs env] by simp
  then show "parseDateToISO env (Obj fs) = parseDateToISO env (Str ''2024-03-10'')"
    by (simp add: parseDateToISO_string_2024_03_10)
  assume "todayFormatted env = ''2024-03-10'' \<and> date a = Obj fs \<and> date b = Str ''2024-03-10''"
  with p show "filter (isToday env) [a, b] = [a, b]"
    by (simp add: isToday_def parseDateToISO_string_2024_03_10)
next
  show "map_of (case storeTimestamp 1710028800 of Obj gs \<Rightarrow> gs | _ \<Rightarrow> []) ''toDate''
       = Some (Fn (Some (DateObj (Some (1710028800 * 1000)))))"
    by (simp add: storeTimestamp_def timeClip_def)
qed

theorem timestamp_accessor_normalizes_witness:
  "storeTimestamp 1710028800
     = Obj [(''seconds'', Num (Some 1710028800)), (''nanoseconds'', Num (Some 0)),
            (''toDate'', Fn (Some (DateObj (Some 1710028800000))))]
   \<and> parseDateToISO utcEngine (storeTimestamp 1710028800) = Inr (Some ''2024-03-10'')
   \<and> parseDateToISO utcEngine (storeTimestamp 1710028800)
       = parseDateToISO utcEngine (Str ''2024-03-10'')
   \<and> todayFormatted utcEngine = ''2024-03-10''
   \<and> filter (isToday utcEngine)
        [scheduleOf ''a'' (storeTimestamp 1710028800) ''09:00'' ''10:00'' None None, sch1]
      = [scheduleOf ''a'' (storeTimestamp 1710028800) ''09:00'' ''10:00'' None None, sch1]"
  using timestamp_accessor_normalizes [of
      "[(''seconds'', Num (Some 1710028800)), (''nanoseconds'', Num (Some 0)),
        (''toDate'', Fn (Some (DateObj (Some 1710028800000))))]"
      utcEngine "scheduleOf ''a'' (storeTimestamp 1710028800) ''09:00'' ''10:00'' None None" sch1]
  using todayFormatted_utcEngine
  by (simp add: storeTimestamp_def timeClip_def scheduleOf_def sch1_def
      parseDateToISO_string_2024_03_10)

section \<open>The module join\<close>

lemma whereEq_dataField:
  "d \<in> set (whereEq k v docs) \<longleftrightarrow> d \<in> set docs \<and> dataField d k = Str v"
  by (auto simp: whereEq_def dataField_def split: option.splits)

lemma enrolledModuleIds_iff:
  "i \<in> set (enrolledModuleIds modules ids)
   \<longleftrightarrow> (\<exists>d c. d \<in> set modules \<and> c \<in> set ids \<and> dataField d ''courseId'' = Str c \<and> doc_id d = i)"
proof -
  have "i \<in> set (enrolledModuleIds modules ids)
        \<longleftrightarrow> (\<exists>c \<in> set ids. \<exists>d \<in> set (whereEq ''courseId'' c modules). doc_id d = i)"
    by (auto simp: enrolledModuleIds_def modulesByEnrolledCourse_def)
  also have "\<dots> \<longleftrightarrow> (\<exists>d c. d \<in> set modules \<and> c \<in> set ids
                 \<and> dataField d ''courseId'' = Str c \<and> doc_id d = i)"
    using whereEq_dataField [of _ "''courseId''" _ modules] by blast
  finally show ?thesis .
qed

lemma enrolledCourseIds_iff:
  "c \<in> set (enrolledCourseIds (enrollmentsQuery uid enrollments))
   \<longleftrightarrow> (\<exists>e. e \<in> set enrollments \<and> enrollment_studentId e = uid \<and> enrollment_courseId e = c)"
  by (auto simp: enrolledCourseIds_def enrollmentsQuery_def)

text \<open>
  C6 as stated fails: the join never reads the course collection. An enrollment that
  names a course missing from the course set still pulls in the modules that name the
  same course.
\<close>

theorem orphan_module_counterexample:
  "''cX'' \<notin> set (map course_id [courseOf ''c1'' ''Algebra'' None])
   \<and> dataField (moduleDoc ''m1'' ''cX'') ''courseId'' = Str ''cX''
   \<and> enrolledModuleIds [moduleDoc ''m1'' ''cX'']
        (enrolledCourseIds (enrollmentsQuery ''s1'' [enrollmentOf ''e1'' ''s1'' ''cX''])) = [''m1'']"
  by (simp add: courseOf_def dataField_def moduleDoc_def enrolledModuleIds_def
      modulesByEnrolledCourse_def whereEq_def enrolledCourseIds_def enrollmentsQuery_def
      enrollmentOf_def)

lemma unenrolled_module_excluded_aux:
  assumes "distinct (map doc_id modules)"
      and "d \<in> set modules"
      and "\<forall>e \<in> set enrollments. enrollment_studentId e = uid
             \<longrightarrow> dataField d ''courseId'' \<noteq> Str (enrollment_courseId e)"
  shows "doc_id d \<notin> set (enrolledModuleIds modules
           (enrolledCourseIds (enrollmentsQuery uid enrollments)))"
proof
  assume "doc_id d \<in> set (enrolledModuleIds modules
           (enrolledCourseIds (enrollmentsQuery uid enrollments)))"
  then obtain d' c where d': "d' \<in> set modules" "dataField d' ''courseId'' = Str c"
      "doc_id d' = doc_id d"
    and c: "c \<in> set (enrolledCourseIds (enrollmentsQuery uid enrollments))"
    unfolding enrolledModuleIds_iff by blast
  from assms(1,2) d'(1,3) have "d' = d"
    by (meson distinct_map inj_onD)
  moreover from c obtain e where "e \<in> set enrollments" "enrollment_studentId e = uid"
      "enrollment_courseId e = c"
    unfolding enrolledCourseIds_iff by blast
  ultimately show False using assms(3) d'(2) by auto
qed

text \<open>
  C6, amended. A module whose courseId equals the courseId of none of the student's
  enrollments (an absent courseId included) never appears in the enrolled module ids,
  document ids being unique in the module collection. So the claim holds as stated
  whenever every enrollment of the student names a course of the course set: then a
  module whose courseId matches no course of the course set never appears.
\<close>

theorem unenrolled_module_excluded:
  "(distinct (map doc_id modules) \<and> d \<in> set modules
      \<and> (\<forall>e \<in> set enrollments. enrollment_studentId e = uid
             \<longrightarrow> dataField d ''courseId'' \<noteq> Str (enrollment_courseId e))
    \<longrightarrow> doc_id d \<notin> set (enrolledModuleIds modules
           (enrolledCourseIds (enrollmentsQuery uid enrollments))))
   \<and> (distinct (map doc_id modules) \<and> d \<in> set modules
      \<and> (\<forall>e \<in> set enrollments. enrollment_studentId e = uid
             \<longrightarrow> enrollment_courseId e \<in> set (map course_id courses))
      \<and> (\<forall>c \<in> set courses. dataField d ''courseId'' \<noteq> Str (course_id c))
    \<longrightarrow> doc_id d \<notin> set (enrolledModuleIds modules
           (enrolledCourseIds (enrollmentsQuery uid enrollments))))"
proof (intro conjI impI)
  assume "distinct (map doc_id modules) \<and> d \<in> set modules
      \<and> (\<forall>e \<in> set enrollments. enrollment_studentId e = uid
             \<longrightarrow> dataField d ''courseId'' \<noteq> Str (enrollment_courseId e))"
  then show "doc_id d \<notin> set (enrolledModuleIds modules
           (enrolledCourseIds (enrollmentsQuery uid enrollments)))"
    using unenrolled_module_excluded_aux [of modules d enrollments uid] by blast
next
  assume a: "distinct (map doc_id modules) \<and> d \<in> set modules
      \<and> (\<forall>e \<in> set enrollments. enrollment_studentId e = uid
             \<longrightarrow> enrollment_courseId e \<in> set (map course_id courses))
      \<and> (\<forall>c \<in> set courses. dataField d ''courseId'' \<noteq> Str (course_id c))"
  then have "\<forall>e \<in> set enrollments. enrollment_studentId e = uid
             \<longrightarrow> dataField d ''courseId'' \<noteq> Str (enrollment_courseId e)"
    by (metis (no_types, lifting) image_iff list.set_map)
  with a show "doc_id d \<notin> set (enrolledModuleIds modules
           (enrolledCourseIds (enrollmentsQuery uid enrollments)))"
    using unenrolled_module_excluded_aux [of modules d enrollments uid] by blast
qed

theorem unenrolled_module_excluded_witness:
  "distinct (map doc_id [moduleDoc ''m1'' ''c1'', moduleDoc ''m2'' ''c7''])
   \<and> moduleDoc ''m2'' ''c7'' \<in> set [moduleDoc ''m1'' ''c1'', moduleDoc ''m2'' ''c7'']
   \<and> dataField (moduleDoc ''m2'' ''c7'') ''courseId'' \<noteq> Str ''c1''
   \<and> ''c1'' \<in> set (map course_id [courseOf ''c1'' ''Algebra'' None])
   \<and> ''m2'' \<notin> set (enrolledModuleIds [moduleDoc ''m1'' ''c1'', moduleDoc ''m2'' ''c7'']
           (enrolledCourseIds (enrollmentsQuery ''s1'' [enrollmentOf ''e1'' ''s1'' ''c1''])))
   \<and> ''m1'' \<in> set (enrolledModuleIds [moduleDoc ''m1'' ''c1'', moduleDoc ''m2'' ''c7'']
           (enrolledCourseIds (enrollmentsQuery ''s1'' [enrollmentOf ''e1'' ''s1'' ''c1''])))"
  using unenrolled_module_excluded [of "[moduleDoc ''m1'' ''c1'', moduleDoc ''m2'' ''c7'']"
      "moduleDoc ''m2'' ''c7''" "[enrollmentOf ''e1'' ''s1'' ''c1'']" "''s1''"
      "[courseOf ''c1'' ''Algebra'' None]"]
  by (simp add: moduleDoc_def dataField_def enrollmentOf_def enrolledModuleIds_def
      modulesByEnrolledCourse_def whereEq_def enrolledCourseIds_def enrollmentsQuery_def
      courseOf_def)

section \<open>Module discovery\<close>

text \<open>
  C7 as stated fails in its second half: what the function hands on is the module list
  and nothing else. A student asking for course c2, which has no module, ends with the
  very list a student asking for course c1 gets from the filter, so nothing in the result
  tells that the fallback fired.
\<close>

theorem fallback_not_flagged_counterexample:
  "filteredModules (Some ''c2'') (allModules utcEngine [moduleDoc ''m1'' ''c1'']) = []
   \<and> filteredModules (Some ''c1'') (allModules utcEngine [moduleDoc ''m1'' ''c1''])
       = allModules utcEngine [moduleDoc ''m1'' ''c1'']
   \<and> allModules utcEngine [moduleDoc ''m1'' ''c1''] \<noteq> []
   \<and> fetchModules utcEngine student (Some ''c2'') [moduleDoc ''m1'' ''c1'']
       = fetchModules utcEngine student (Some ''c1'') [moduleDoc ''m1'' ''c1'']"
  by (simp add: fetchModules_def Let_def filteredModules_def allModules_def adaptModule_def
      moduleDoc_def dataField_def js_or_def truthyId_def)

text \<open>
  C7, amended. When no module has the requested courseId the function returns all
  modules, for either role; a student whose course has modules gets exactly those. The
  result is the bare list: no flag says that the fallback fired (the source only writes a
  line to the console).
\<close>

theorem fetchModules_fallback:
  "(filteredModules viewingCourseId (allModules env modulesSnapshot) = []
    \<longrightarrow> fetchModules env r viewingCourseId modulesSnapshot = allModules env modulesSnapshot)
   \<and> (r = student \<and> truthyId viewingCourseId
      \<and> filteredModules viewingCourseId (allModules env modulesSnapshot) \<noteq> []
    \<longrightarrow> fetchModules env r viewingCourseId modulesSnapshot
        = filteredModules viewingCourseId (allModules env modulesSnapshot))
   \<and> (\<forall>m. m \<in> set (filteredModules viewingCourseId (allModules env modulesSnapshot))
        \<longleftrightarrow> m \<in> set (allModules env modulesSnapshot)
            \<and> Some (module_courseId m) = map_option Str viewingCourseId)"
proof (intro conjI impI allI)
  assume "filteredModules viewingCourseId (allModules env modulesSnapshot) = []"
  then show "fetchModules env r viewingCourseId modulesSnapshot = allModules env modulesSnapshot"
    by (simp add: fetchModules_def Let_def)
next
  assume "r = student \<and> truthyId viewingCourseId
      \<and> filteredModules viewingCourseId (allModules env modulesSnapshot) \<noteq> []"
  then show "fetchModules env r viewingCourseId modulesSnapshot
        = filteredModules viewingCourseId (allModules env modulesSnapshot)"
    by (simp add: fetchModules_def Let_def)
next
  fix m
  show "m \<in> set (filteredModules viewingCourseId (allModules env modulesSnapshot))
        \<longleftrightarrow> m \<in> set (allModules env modulesSnapshot)
            \<and> Some (module_courseId m) = map_option Str viewingCourseId"
    by (simp add: filteredModules_def)
qed

theorem fetchModules_fallback_witness:
  "filteredModules (Some ''c2'') (allModules utcEngine [moduleDoc ''m1'' ''c1'']) = []
   \<and> fetchModules utcEngine student (Some ''c2'') [moduleDoc ''m1'' ''c1'']
       = allModules utcEngine [moduleDoc ''m1'' ''c1'']
   \<and> map module_id (fetchModules utcEngine student (Some ''c2'') [moduleDoc ''m1'' ''c1''])
       = [''m1'']"
  using fetchModules_fallback [of "Some ''c2''" utcEngine "[moduleDoc ''m1'' ''c1'']" student]
  by (simp add: filteredModules_def allModules_def adaptModule_def
      moduleDoc_def dataField_def js_or_def)

section \<open>Today's classes and the placeholder\<close>

text \<open>
  C8. When no schedule is dated today and the student has an enrolled course, the list of
  today's classes is exactly one entry, the placeholder built in memory from the first
  enrolled course; its id is the literal today-demo, which the code never takes from the
  store, so it is no schedule of the store unless a stored schedule carries that very id.
  When some schedule is dated today, or the student has no enrolled course, the list is
  the schedules dated today, reordered by start time, and nothing is added.
\<close>

theorem placeholder_policy:
  "(filter (isToday env) schedules = [] \<and> enrolledCourses \<noteq> []
    \<longrightarrow> todaysClasses env schedules enrolledCourses = [demoClass env (hd enrolledCourses)]
      \<and> schedule_id (demoClass env (hd enrolledCourses)) = ''today-demo''
      \<and> (''today-demo'' \<notin> set (map schedule_id schedules)
         \<longrightarrow> demoClass env (hd enrolledCourses) \<notin> set schedules))
   \<and> (filter (isToday env) schedules \<noteq> [] \<or> enrolledCourses = []
    \<longrightarrow> mset (todaysClasses env schedules enrolledCourses) = mset (filter (isToday env) schedules))"
proof (intro conjI impI)
  assume "filter (isToday env) schedules = [] \<and> enrolledCourses \<noteq> []"
  then show "todaysClasses env schedules enrolledCourses = [demoClass env (hd enrolledCourses)]"
    by (simp add: todaysClasses_def jsSort_def)
next
  show "schedule_id (demoClass env (hd enrolledCourses)) = ''today-demo''"
    by (simp add: demoClass_def)
next
  assume "''today-demo'' \<notin> set (map schedule_id schedules)"
  then show "demoClass env (hd enrolledCourses) \<notin> set schedules"
    by (auto simp: demoClass_def image_iff)
next
  assume "filter (isToday env) schedules \<noteq> [] \<or> enrolledCourses = []"
  then show "mset (todaysClasses env schedules enrolledCourses)
             = mset (filter (isToday env) schedules)"
    by (auto simp: todaysClasses_def mset_jsSort)
qed

theorem placeholder_policy_witness:
  "filter (isToday utcEngine) [scheduleOf ''x'' (Str ''2024-03-11'') ''09:00'' ''10:00'' None None] = []
   \<and> [courseOf ''c1'' ''Algebra'' (Some [''m1''])] \<noteq> []
   \<and> map schedule_id (todaysClasses utcEngine
        [scheduleOf ''x'' (Str ''2024-03-11'') ''09:00'' ''10:00'' None None]
        [courseOf ''c1'' ''Algebra'' (Some [''m1''])]) = [''today-demo'']
   \<and> filter (isToday utcEngine) [sch1] \<noteq> []
   \<and> mset (todaysClasses utcEngine [sch1] [courseOf ''c1'' ''Algebra'' (Some [''m1''])])
       = mset [sch1]
   \<and> mset (todaysClasses utcEngine [scheduleOf ''x'' (Str ''2024-03-11'') ''09:00'' ''10:00'' None None] [])
       = mset []"
  using placeholder_policy [of utcEngine
      "[scheduleOf ''x'' (Str ''2024-03-11'') ''09:00'' ''10:00'' None None]"
      "[courseOf ''c1'' ''Algebra'' (Some [''m1''])]"]
    placeholder_policy [of utcEngine "[sch1]" "[courseOf ''c1'' ''Algebra'' (Some [''m1''])]"]
    placeholder_policy [of utcEngine
      "[scheduleOf ''x'' (Str ''2024-03-11'') ''09:00'' ''10:00'' None None]" "[]"]
    todayFormatted_utcEngine
  by (simp add: isToday_def parseDateToISO_def parseDateToISO_try_def scheduleOf_def sch1_def)

section \<open>Monotonicity of the join\<close>

lemma enrolledCourseIds_mono:
  "set (enrolledCourseIds (enrollmentsQuery uid (xs @ ys)))
   \<subseteq> set (enrolledCourseIds (enrollmentsQuery uid (xs @ e # ys)))"
  by (auto simp: enrolledCourseIds_def enrollmentsQuery_def)

lemma enrolledModuleIds_mono:
  "set ids \<subseteq> set ids' \<Longrightarrow> set (enrolledModuleIds modules ids) \<subseteq> set (enrolledModuleIds modules ids')"
  unfolding enrolledModuleIds_iff subset_iff by blast

lemma studentSchedules_mono:
  "set cids \<subseteq> set cids' \<Longrightarrow> set mids \<subseteq> set mids'
   \<Longrightarrow> set (studentSchedules cids mids all) \<subseteq> set (studentSchedules cids' mids' all)"
  by (auto simp: studentSchedules_def includes_str_def split: option.splits)

lemma enrollmentsQuery_grows:
  "enrollmentsQuery uid (xs @ ys) \<noteq> [] \<Longrightarrow> enrollmentsQuery uid (xs @ e # ys) \<noteq> []"
  by (auto simp: enrollmentsQuery_def filter_empty_conv)

lemma fetchClassSchedules_mono:
  assumes "fetchClassSchedules env uid ss (xs @ ys) ms = Inr l"
      and "fetchClassSchedules env uid ss (xs @ e # ys) ms = Inr l'"
  shows "set l \<subseteq> set l'"
proof (cases "ss = []")
  case True
  with assms show ?thesis by (auto simp: fetchClassSchedules_def split: if_splits)
next
  case False
  show ?thesis
  proof (cases "enrollmentsQuery uid (xs @ ys) = []")
    case True
    with False assms(1) show ?thesis by (simp add: fetchClassSchedules_def)
  next
    case ne: False
    then have ne': "enrollmentsQuery uid (xs @ e # ys) \<noteq> []"
      by (rule enrollmentsQuery_grows)
    from False ne assms(1) obtain all where all: "allSchedules ss = Inr all"
      and l: "set l = set (studentSchedules (enrolledCourseIds (enrollmentsQuery uid (xs @ ys)))
        (enrolledModuleIds ms (enrolledCourseIds (enrollmentsQuery uid (xs @ ys)))) all)"
      by (auto simp: fetchClassSchedules_def Let_def bindE_def set_jsSort split: sum.splits)
    from False ne' assms(2) all
    have l': "set l' = set (studentSchedules (enrolledCourseIds (enrollmentsQuery uid (xs @ e # ys)))
        (enrolledModuleIds ms (enrolledCourseIds (enrollmentsQuery uid (xs @ e # ys)))) all)"
      by (auto simp: fetchClassSchedules_def Let_def bindE_def set_jsSort split: sum.splits)
    show ?thesis unfolding l l'
      by (intro studentSchedules_mono enrolledModuleIds_mono enrolledCourseIds_mono)
  qed
qed

text \<open>
  C9. Adding one enrollment, anywhere in the enrollment collection, only adds to the
  student's enrolled course ids, to the enrolled module ids and to the schedule list:
  whenever the reads before and after both succeed the earlier list is contained in the
  later one, and both succeed whenever the date formatting of the schedule collection
  does.
\<close>

theorem join_monotone:
  "set (enrolledCourseIds (enrollmentsQuery uid (xs @ ys)))
     \<subseteq> set (enrolledCourseIds (enrollmentsQuery uid (xs @ e # ys)))
   \<and> set (enrolledModuleIds modules (enrolledCourseIds (enrollmentsQuery uid (xs @ ys))))
     \<subseteq> set (enrolledModuleIds modules (enrolledCourseIds (enrollmentsQuery uid (xs @ e # ys))))
   \<and> (fetchClassSchedules env uid schedulesSnapshot (xs @ ys) modules = Inr l
      \<and> fetchClassSchedules env uid schedulesSnapshot (xs @ e # ys) modules = Inr l'
      \<longrightarrow> set l \<subseteq> set l')
   \<and> (allSchedules schedulesSnapshot = Inr all
      \<longrightarrow> (\<exists>k k'. fetchClassSchedules env uid schedulesSnapshot (xs @ ys) modules = Inr k
            \<and> fetchClassSchedules env uid schedulesSnapshot (xs @ e # ys) modules = Inr k'
            \<and> set k \<subseteq> set k'))"
proof (intro conjI impI)
  show "set (enrolledCourseIds (enrollmentsQuery uid (xs @ ys)))
     \<subseteq> set (enrolledCourseIds (enrollmentsQuery uid (xs @ e # ys)))"
    by (rule enrolledCourseIds_mono)
  then show "set (enrolledModuleIds modules (enrolledCourseIds (enrollmentsQuery uid (xs @ ys))))
     \<subseteq> set (enrolledModuleIds modules (enrolledCourseIds (enrollmentsQuery uid (xs @ e # ys))))"
    by (rule enrolledModuleIds_mono)
next
  assume "fetchClassSchedules env uid schedulesSnapshot (xs @ ys) modules = Inr l
      \<and> fetchClassSchedules env uid schedulesSnapshot (xs @ e # ys) modules = Inr l'"
  then show "set l \<subseteq> set l'"
    using fetchClassSchedules_mono by blast
next
  assume a: "allSchedules schedulesSnapshot = Inr all"
  from fetchClassSchedules_returns [OF a]
  obtain k where k: "fetchClassSchedules env uid schedulesSnapshot (xs @ ys) modules = Inr k"
    by blast
  from fetchClassSchedules_returns [OF a]
  obtain k' where k': "fetchClassSchedules env uid schedulesSnapshot (xs @ e # ys) modules = Inr k'"
    by blast
  from k k' fetchClassSchedules_mono have "set k \<subseteq> set k'" by blast
  with k k' show "\<exists>k k'. fetchClassSchedules env uid schedulesSnapshot (xs @ ys) modules = Inr k
            \<and> fetchClassSchedules env uid schedulesSnapshot (xs @ e # ys) modules = Inr k'
            \<and> set k \<subseteq> set k'"
    by blast
qed

theorem join_monotone_witness:
  "fetchClassSchedules utcEngine ''s1'' [sch1, sch2] ([enrollmentOf ''e1'' ''s1'' ''c1''] @ [])
     [moduleDoc ''m1'' ''c1''] = Inr [sch1]
   \<and> fetchClassSchedules utcEngine ''s1'' [sch1, sch2]
       ([enrollmentOf ''e1'' ''s1'' ''c1''] @ enrollmentOf ''e2'' ''s1'' ''c9'' # [])
       [moduleDoc ''m1'' ''c1''] = Inr [sch2, sch1]
   \<and> allSchedules [sch1, sch2] = Inr [sch1, sch2]
   \<and> set [sch1] \<subseteq> set [sch2, sch1]
   \<and> set (enrolledCourseIds (enrollmentsQuery ''s1'' ([enrollmentOf ''e1'' ''s1'' ''c1''] @ [])))
     \<subseteq> set (enrolledCourseIds (enrollmentsQuery ''s1''
           ([enrollmentOf ''e1'' ''s1'' ''c1''] @ enrollmentOf ''e2'' ''s1'' ''c9'' # [])))"
  using join_monotone [of "''s1''" "[enrollmentOf ''e1'' ''s1'' ''c1'']" "[]"
      "enrollmentOf ''e2'' ''s1'' ''c9''" "[moduleDoc ''m1'' ''c1'']" utcEngine "[sch1, sch2]"
      "[sch1]" "[sch2, sch1]" "[sch1, sch2]"]
  by (simp add: fetchClassSchedules_def enrollmentsQuery_def enrollmentOf_def
        enrolledCourseIds_def enrolledModuleIds_def modulesByEnrolledCourse_def whereEq_def
        moduleDoc_def allSchedules_def formatSchedule_def sch1_def sch2_def scheduleOf_def
        bindE_def studentSchedules_def includes_str_def jsSort_def compareSchedules_def
        getDateValue_def newDate_def getTime_def Date_parse_def sortCompare_def
        localeCompare_def isClockTime_def digitVal_def isoDateOnly_2024_03_10)

section \<open>Timestamps of materials\<close>

lemma mapE_Inr_elem:
  "mapE f xs = Inr ys \<Longrightarrow> y \<in> set ys \<Longrightarrow> \<exists>x. x \<in> set xs \<and> f x = Inr y"
proof (induction xs arbitrary: ys)
  case Nil
  then show ?case by simp
next
  case (Cons x xs)
  from Cons.prems(1) obtain y0 ys0 where s: "f x = Inr y0" "mapE f xs = Inr ys0" "ys = y0 # ys0"
    by (auto simp: bindE_def split: sum.splits)
  show ?case
  proof (cases "y = y0")
    case True
    with s(1) show ?thesis by auto
  next
    case False
    with Cons.prems(2) s(3) have "y \<in> set ys0" by simp
    from Cons.IH [OF s(2) this] show ?thesis by auto
  qed
qed

lemma isDate_newDate: "isDate (newDate env v)"
  by (cases v) (simp_all add: newDate_def isDate_def)

lemma isDate_newDateNow: "isDate (newDateNow env)"
  by (simp add: newDateNow_def isDate_def)

lemma processTimestamp_isDate:
  assumes "processTimestamp env ts = Inr v"
  shows "isDate v"
proof -
  consider (a) "v = newDateNow env" | (b) "\<exists>d. v = newDate env d" | (c) "v = ts \<and> isDate ts"
    | (d) "v = secondsToDate env ts"
    using assms
    by (auto simp: processTimestamp_def bindE_def split: if_splits sum.splits)
  then show ?thesis
    by cases (auto simp: isDate_newDate isDate_newDateNow secondsToDate_def)
qed

lemma processTimestamp_unrecognized:
  assumes "unrecognizedTimestamp ts"
  shows "processTimestamp env ts = Inr (DateObj (Some (currentTime env)))"
  using assms
  by (auto simp: processTimestamp_def unrecognizedTimestamp_def newDateNow_def)

lemma adaptMaterial_Inr:
  assumes "adaptMaterial env mid d = Inr m"
  shows "material_id m = doc_id d
       \<and> processTimestamp env (js_or (dataField d ''createdAt'') (dataField d ''uploadedAt''))
           = Inr (createdAt m)
       \<and> processTimestamp env (js_or (dataField d ''updatedAt'') (dataField d ''uploadedAt''))
           = Inr (updatedAt m)"
proof -
  let ?c = "processTimestamp env (js_or (dataField d ''createdAt'') (dataField d ''uploadedAt''))"
  let ?u = "processTimestamp env (js_or (dataField d ''updatedAt'') (dataField d ''uploadedAt''))"
  obtain c where c: "?c = Inr c"
    using assms by (cases ?c) (simp_all add: adaptMaterial_def bindE_def)
  obtain u where u: "?u = Inr u"
    using assms c by (cases ?u) (simp_all add: adaptMaterial_def bindE_def)
  from assms c u have "m = \<lparr>material_id = doc_id d,
            material_moduleId = js_or (dataField d ''moduleId'') (Str mid),
            material_title = js_or (js_or (dataField d ''title'') (dataField d ''name'')) (Str ''Untitled''),
            material_description = js_or (dataField d ''description'') (Str []),
            fileUrl = js_or (dataField d ''fileUrl'') (Str []),
            fileName = js_or (js_or (js_or (dataField d ''fileName'') (dataField d ''name''))
                         (dataField d ''fileUrl'')) (Str ''Unknown file''),
            fileType = js_or (dataField d ''fileType'') (Str ''application/octet-stream''),
            fileSize = js_or (js_or (dataField d ''fileSize'') (dataField d ''size'')) (Num (Some 0)),
            uploadedBy = js_or (dataField d ''uploadedBy'') (Str []),
            createdAt = c,
            updatedAt = u\<rparr>"
    unfolding adaptMaterial_def bindE_def by simp
  then have "material_id m = doc_id d" "createdAt m = c" "updatedAt m = u"
    by simp_all
  with c u show ?thesis by simp
qed

text \<open>
  C10 as stated fails on validity: a timestamp map whose seconds field holds epoch
  microseconds is a recognized shape, and the Date built from it is outside the range of
  time values, an Invalid Date.
\<close>

theorem material_invalid_date_counterexample:
  "(case fetchMaterials utcEngine ''m1''
           [materialDoc ''mat1'' ''m1'' (Obj [(''seconds'', Num (Some 1710028800000000))])] of
      Inr [m] \<Rightarrow> material_id m = ''mat1'' \<and> createdAt m = DateObj None
                 \<and> \<not> validDate (createdAt m)
    | _ \<Rightarrow> False)"
  by (simp add: fetchMaterials_def whereEq_def materialDoc_def adaptMaterial_def dataField_def
      js_or_def processTimestamp_def isFunction_def isDate_def secondsToDate_def toNumber_def
      times1000_def newDate_def timeClip_def newDateNow_def bindE_def validDate_def)

text \<open>
  C10, amended. Every material the lookup returns comes from a stored document and has a
  Date, never null, as createdAt and as updatedAt. A raw timestamp (the field, or
  uploadedAt in its place) that is missing, falsy or of a shape the code has no branch for
  is replaced by the current time of the read, without an error. Validity of the Date is
  promised for that case only: a Date instance is handed on as it is, and a seconds field
  or a conversion accessor gives whatever Date it amounts to.
\<close>

theorem material_timestamps:
  "(fetchMaterials env mid materials = Inr ms \<and> m \<in> set ms
    \<longrightarrow> (\<exists>d. d \<in> set materials \<and> material_id m = doc_id d \<and> adaptMaterial env mid d = Inr m)
      \<and> isDate (createdAt m) \<and> isDate (updatedAt m))
   \<and> (adaptMaterial env mid d = Inr m
      \<and> unrecognizedTimestamp (js_or (dataField d ''createdAt'') (dataField d ''uploadedAt''))
    \<longrightarrow> createdAt m = DateObj (Some (currentTime env)) \<and> validDate (createdAt m))
   \<and> (adaptMaterial env mid d = Inr m
      \<and> unrecognizedTimestamp (js_or (dataField d ''updatedAt'') (dataField d ''uploadedAt''))
    \<longrightarrow> updatedAt m = DateObj (Some (currentTime env)) \<and> validDate (updatedAt m))
   \<and> (unrecognizedTimestamp ts
    \<longrightarrow> processTimestamp env ts = Inr (DateObj (Some (currentTime env))))"
proof (intro conjI impI)
  assume a: "fetchMaterials env mid materials = Inr ms \<and> m \<in> set ms"
  then have "mapE (adaptMaterial env mid) (whereEq ''moduleId'' mid materials) = Inr ms"
    by (auto simp: fetchMaterials_def Let_def split: if_splits)
  with a obtain d where d: "d \<in> set (whereEq ''moduleId'' mid materials)"
      "adaptMaterial env mid d = Inr m"
    using mapE_Inr_elem [of "adaptMaterial env mid" "whereEq ''moduleId'' mid materials" ms m]
    by auto
  from d(1) have dm: "d \<in> set materials" by (simp add: whereEq_def)
  note f = adaptMaterial_Inr [OF d(2)]
  from dm d(2) f
  show "\<exists>d. d \<in> set materials \<and> material_id m = doc_id d \<and> adaptMaterial env mid d = Inr m"
    by (intro exI [of _ d]) simp
  from f have "processTimestamp env (js_or (dataField d ''createdAt'') (dataField d ''uploadedAt''))
           = Inr (createdAt m)" by simp
  then show "isDate (createdAt m)" by (rule processTimestamp_isDate)
  from f have "processTimestamp env (js_or (dataField d ''updatedAt'') (dataField d ''uploadedAt''))
           = Inr (updatedAt m)" by simp
  then show "isDate (updatedAt m)" by (rule processTimestamp_isDate)
next
  assume h: "adaptMaterial env mid d = Inr m
      \<and> unrecognizedTimestamp (js_or (dataField d ''createdAt'') (dataField d ''uploadedAt''))"
  then have 1: "processTimestamp env (js_or (dataField d ''createdAt'') (dataField d ''uploadedAt''))
           = Inr (createdAt m)"
    using adaptMaterial_Inr [of env mid d m] by simp
  from h have 2: "processTimestamp env (js_or (dataField d ''createdAt'') (dataField d ''uploadedAt''))
           = Inr (DateObj (Some (currentTime env)))"
    by (simp add: processTimestamp_unrecognized)
  from 1 2 show "createdAt m = DateObj (Some (currentTime env))" by simp
  then show "validDate (createdAt m)" by (simp add: validDate_def)
next
  assume h: "adaptMaterial env mid d = Inr m
      \<and> unrecognizedTimestamp (js_or (dataField d ''updatedAt'') (dataField d ''uploadedAt''))"
  then have 1: "processTimestamp env (js_or (dataField d ''updatedAt'') (dataField d ''uploadedAt''))
           = Inr (updatedAt m)"
    using adaptMaterial_Inr [of env mid d m] by simp
  from h have 2: "processTimestamp env (js_or (dataField d ''updatedAt'') (dataField d ''uploadedAt''))
           = Inr (DateObj (Some (currentTime env)))"
    by (simp add: processTimestamp_unrecognized)
  from 1 2 show "updatedAt m = DateObj (Some (currentTime env))" by simp
  then show "validDate (updatedAt m)" by (simp add: validDate_def)
next
  assume "unrecognizedTimestamp ts"
  then show "processTimestamp env ts = Inr (DateObj (Some (currentTime env)))"
    by (rule processTimestamp_unrecognized)
qed

lemma fetchMaterials_example:
  "fetchMaterials utcEngine ''m1'' [materialDoc ''mat1'' ''m1'' (Str ''2024-03-10'')]
   = Inr [\<lparr>material_id = ''mat1'', material_moduleId = Str ''m1'',
           material_title = Str ''Untitled'', material_description = Str [],
           fileUrl = Str [], fileName = Str ''Unknown file'',
           fileType = Str ''application/octet-stream'', fileSize = Num (Some 0),
           uploadedBy = Str [], createdAt = DateObj (Some 1710064800000),
           updatedAt = DateObj (Some 1710064800000)\<rparr>]"
  by (simp add: fetchMaterials_def whereEq_def materialDoc_def adaptMaterial_def dataField_def
      js_or_def processTimestamp_def isFunction_def isDate_def newDateNow_def bindE_def
      utcEngine_def)

theorem material_timestamps_witness:
  "(case fetchMaterials utcEngine ''m1'' [materialDoc ''mat1'' ''m1'' (Str ''2024-03-10'')] of
      Inr [m] \<Rightarrow> material_id m = ''mat1''
                 \<and> createdAt m = DateObj (Some (currentTime utcEngine))
                 \<and> updatedAt m = DateObj (Some (currentTime utcEngine))
                 \<and> isDate (createdAt m) \<and> isDate (updatedAt m)
    | _ \<Rightarrow> False)
   \<and> unrecognizedTimestamp (Str ''2024-03-10'')
   \<and> unrecognizedTimestamp Undefined
   \<and> processTimestamp utcEngine (Str ''2024-03-10'') = Inr (DateObj (Some 1710064800000))"
  using fetchMaterials_example
    material_timestamps [of utcEngine "''m1''"
      "[materialDoc ''mat1'' ''m1'' (Str ''2024-03-10'')]"
      "[\<lparr>material_id = ''mat1'', material_moduleId = Str ''m1'',
           material_title = Str ''Untitled'', material_description = Str [],
           fileUrl = Str [], fileName = Str ''Unknown file'',
           fileType = Str ''application/octet-stream'', fileSize = Num (Some 0),
           uploadedBy = Str [], createdAt = DateObj (Some 1710064800000),
           updatedAt = DateObj (Some 1710064800000)\<rparr>]"
      "\<lparr>material_id = ''mat1'', material_moduleId = Str ''m1'',
           material_title = Str ''Untitled'', material_description = Str [],
           fileUrl = Str [], fileName = Str ''Unknown file'',
           fileType = Str ''application/octet-stream'', fileSize = Num (Some 0),
           uploadedBy = Str [], createdAt = DateObj (Some 1710064800000),
           updatedAt = DateObj (Some 1710064800000)\<rparr>"
      "materialDoc ''mat1'' ''m1'' (Str ''2024-03-10'')" "Str ''2024-03-10''"]
  by (simp add: unrecognizedTimestamp_def isFunction_def isDate_def utcEngine_def)

end
